theory Spec2Isabelle
  imports Complex_Main "HOL-Library.Multiset"
begin

section \<open>The aligner dataset cache builder (Aligner/CodecAlignerDataset.py)\<close>

text \<open>
  The development follows the source file top-down in dependency order: the shuffle
  helper at the bottom of the file, the slicing of the key list among the loading
  processes, the per-path loop body of \<^verbatim>\<open>cache_builder_process\<close>, the constructor
  \<^verbatim>\<open>__init__\<close> with its two branches (build and load), and \<^verbatim>\<open>__getitem__\<close>.
  Python exceptions are values of \<open>py_error\<close>; a computation that may raise returns
  \<open>py_error + 'a\<close> with \<open>Inl\<close> for the exception.
\<close>

datatype py_error =
    IndexError
  | KeyError
  | ValueError
  | TypeError
  | ZeroDivisionError
  | RuntimeError
  | OtherError

subsection \<open>\<^verbatim>\<open>fisher_yates_shuffle\<close> (lines 200-203)\<close>

text \<open>
  The process-wide random source is a stream of raw draws \<open>rnd 0, rnd 1, \<dots>\<close>; the
  \<open>k\<close>-th call of \<^verbatim>\<open>random.randint(a, b)\<close> turns the \<open>k\<close>-th draw into a value of the
  closed interval \<open>[a, b]\<close>. Every sequence of results that the library can deliver
  is produced by some stream (take the results themselves as the draws). As in
  Python, an empty interval raises \<^verbatim>\<open>ValueError\<close>.
\<close>

definition randint :: "(nat \<Rightarrow> nat) \<Rightarrow> nat \<Rightarrow> nat \<Rightarrow> nat \<Rightarrow> py_error + nat" where
  "randint rnd k a b =
     (if a \<le> b then Inr (a + rnd k mod (b - a + 1)) else Inl ValueError)"

text \<open>
  \<^verbatim>\<open>lst[i], lst[j] = lst[j], lst[i]\<close>: both reads happen first (and raise
  \<^verbatim>\<open>IndexError\<close> out of range), then position \<open>i\<close> receives the old \<open>lst[j]\<close> and
  position \<open>j\<close> the old \<open>lst[i]\<close>.
\<close>

definition swap_items :: "'a list \<Rightarrow> nat \<Rightarrow> nat \<Rightarrow> py_error + 'a list" where
  "swap_items lst i j =
     (if i < length lst \<and> j < length lst
      then Inr (lst[i := lst ! j, j := lst ! i])
      else Inl IndexError)"

text \<open>
  The loop \<^verbatim>\<open>for i in range(len(lst) - 1, 0, -1)\<close> visits \<open>i = len - 1, \<dots>, 1\<close>.
  \<open>shuffle_loop rnd k i lst\<close> is the rest of the loop when the next index to visit
  is \<open>i\<close> (nothing is left at \<open>0\<close>) and \<open>k\<close> draws have been consumed.
\<close>

fun shuffle_loop :: "(nat \<Rightarrow> nat) \<Rightarrow> nat \<Rightarrow> nat \<Rightarrow> 'a list \<Rightarrow> py_error + 'a list" where
  "shuffle_loop rnd k 0 lst = Inr lst"
| "shuffle_loop rnd k (Suc i) lst =
     (case randint rnd k 0 (Suc i) of
        Inl e \<Rightarrow> Inl e
      | Inr j \<Rightarrow>
          (case swap_items lst (Suc i) j of
             Inl e \<Rightarrow> Inl e
           | Inr lst' \<Rightarrow> shuffle_loop rnd (Suc k) i lst'))"

text \<open>
  For the empty list Python's start value is \<open>-1\<close> and the range is empty; the
  truncated \<open>length lst - 1 = 0\<close> gives the same empty loop.
\<close>

definition fisher_yates_shuffle :: "(nat \<Rightarrow> nat) \<Rightarrow> 'a list \<Rightarrow> py_error + 'a list" where
  "fisher_yates_shuffle rnd lst = shuffle_loop rnd 0 (length lst - 1) lst"

subsection \<open>Slicing the key list among the loading processes (lines 47-51)\<close>

text \<open>
  \<^verbatim>\<open>lst[a:b]\<close> for non-negative bounds: the elements at the positions \<open>a \<le> k < b\<close>
  that exist; empty when \<open>b \<le> a\<close>. Slicing never raises.
\<close>

definition slice :: "'a list \<Rightarrow> nat \<Rightarrow> nat \<Rightarrow> 'a list" where
  "slice lst a b = take (b - a) (drop a lst)"

text \<open>
  \<^verbatim>\<open>for i in range(loading_processes): key_splits.append(key_list[i * len(key_list) //
  loading_processes:(i + 1) * len(key_list) // loading_processes])\<close>.
  The worker count is a Python integer; \<^verbatim>\<open>range\<close> of a count below one is empty, so
  the division is only ever evaluated with a positive divisor, where floor division
  of non-negative numbers is \<open>div\<close> on \<open>nat\<close>.
\<close>

definition split_bound :: "nat \<Rightarrow> int \<Rightarrow> nat \<Rightarrow> nat" where
  "split_bound n loading_processes i = i * n div nat loading_processes"

definition key_splits :: "'a list \<Rightarrow> int \<Rightarrow> 'a list list" where
  "key_splits key_list loading_processes =
     map (\<lambda>i. slice key_list
                 (split_bound (length key_list) loading_processes i)
                 (split_bound (length key_list) loading_processes (i + 1)))
         [0 ..< nat loading_processes]"

subsection \<open>Transcripts and \<^verbatim>\<open>str.strip\<close>\<close>

text \<open>
  A Python string is a sequence of Unicode code points. \<^verbatim>\<open>str.strip()\<close> without an
  argument removes the leading and trailing whitespace code points, which for
  Python 3 are exactly the ones listed in \<open>is_space\<close>.
\<close>

type_synonym pystr = "nat list"

definition is_space :: "nat \<Rightarrow> bool" where
  "is_space c \<longleftrightarrow>
     (9 \<le> c \<and> c \<le> 13) \<or> (28 \<le> c \<and> c \<le> 32) \<or> c = 133 \<or> c = 160 \<or> c = 5760
     \<or> (8192 \<le> c \<and> c \<le> 8202) \<or> c = 8232 \<or> c = 8233 \<or> c = 8239 \<or> c = 8287
     \<or> c = 12288"

definition strip :: "pystr \<Rightarrow> pystr" where
  "strip s = rev (dropWhile is_space (rev (dropWhile is_space s)))"

subsection \<open>The collaborators\<close>

text \<open>
  The libraries and the repository's preprocessing classes that the file calls are
  parameters of the model, one field per call site. A call that the source guards
  with \<^verbatim>\<open>try\<close>, or whose exception would end a worker, returns \<open>py_error + _\<close>.
  File paths are strings; a waveform is the list of its frames, so that \<^verbatim>\<open>len\<close> is
  \<open>length\<close>; encoded text, codec indexes and embeddings are opaque values. The
  collaborators are taken as already configured for the language and the device, and
  constructing them (\<^verbatim>\<open>ArticulatoryCombinedTextFrontend\<close>, \<^verbatim>\<open>CodecAudioPreprocessor\<close>,
  \<^verbatim>\<open>Resample\<close>, \<^verbatim>\<open>EncoderClassifier.from_hparams\<close>) is taken to succeed.

  \<^item> \<open>truediv n k\<close>: Python's true division \<^verbatim>\<open>n / k\<close> of a length by a non-zero
    integer.
  \<^item> \<open>sf_read path\<close>: \<^verbatim>\<open>sf.read(path)\<close>, the frames and the sample rate.
  \<^item> \<open>resample sr wave\<close>: \<^verbatim>\<open>resample(torch.Tensor(wave, ...))\<close> for the resampler
    built with \<^verbatim>\<open>orig_freq=sr\<close>.
  \<^item> \<open>string_to_tensor text handle_missing input_phonemes\<close>: the text frontend's
    method followed by \<^verbatim>\<open>.squeeze(0).cpu().numpy()\<close>.
  \<^item> \<open>audio_to_codebook_indexes input_sr wave current_sr\<close>: the codec preprocessor
    built with \<^verbatim>\<open>input_sr\<close>, followed by \<^verbatim>\<open>.transpose(0, 1).cpu().numpy()\<close>.
  \<^item> \<open>short_tensor_text\<close>, \<open>short_tensor_speech\<close>, \<open>float_tensor\<close>: the conversions
    \<^verbatim>\<open>torch.ShortTensor(x[0])\<close>, \<^verbatim>\<open>torch.ShortTensor(x[1])\<close>, \<^verbatim>\<open>torch.Tensor(x[2])\<close>.
  \<^item> \<open>encode_batch wave\<close>: the speaker embedding of line 95.
\<close>

record ('a, 't, 'c, 'e, 'd) collab =
  truediv :: "nat \<Rightarrow> int \<Rightarrow> 'd"
  sf_read :: "string \<Rightarrow> py_error + ('a list \<times> int)"
  resample :: "int \<Rightarrow> 'a list \<Rightarrow> py_error + 'a list"
  string_to_tensor :: "pystr \<Rightarrow> bool \<Rightarrow> bool \<Rightarrow> py_error + 't"
  audio_to_codebook_indexes :: "int \<Rightarrow> 'a list \<Rightarrow> int \<Rightarrow> py_error + 'c"
  short_tensor_text :: "'t \<Rightarrow> 't"
  short_tensor_speech :: "'c \<Rightarrow> 'c"
  float_tensor :: "'a list \<Rightarrow> 'a list"
  encode_batch :: "'a list \<Rightarrow> py_error + 'e"

subsection \<open>The loop body of \<^verbatim>\<open>cache_builder_process\<close> (lines 128-177)\<close>

text \<open>
  One pass of the loop body either executes \<^verbatim>\<open>continue\<close> (\<open>Skip\<close>), runs to its end
  with a value (\<open>Done\<close>), or raises an exception that nothing in the worker catches
  (\<open>Uncaught\<close>).
\<close>

datatype 'r outcome = Skip | Done 'r | Uncaught py_error

text \<open>
  The chained comparison \<^verbatim>\<open>min_len <= dur_in_seconds <= max_len\<close>. Durations and
  bounds are values of one ordered type \<open>'d\<close> (Python's numbers); the quotient
  \<^verbatim>\<open>len(wave) / sr\<close> is the field \<open>truediv\<close> of the collaborators, so nothing is
  assumed about its rounding. Dividing by a sample rate of zero raises
  \<^verbatim>\<open>ZeroDivisionError\<close>, which the loop body tests before it divides.
\<close>

definition within_bounds :: "'d::ord \<Rightarrow> 'd \<Rightarrow> 'd \<Rightarrow> bool" where
  "within_bounds min_len dur_in_seconds max_len \<longleftrightarrow>
     min_len \<le> dur_in_seconds \<and> dur_in_seconds \<le> max_len"

text \<open>
  Lines 129-155, up to the comment \<^verbatim>\<open># raw audio preprocessing is done\<close>. The transcript
  dictionary is an association list in insertion order; a missing key raises
  \<^verbatim>\<open>KeyError\<close> outside every \<^verbatim>\<open>try\<close>. The bare \<^verbatim>\<open>except:\<close> around \<^verbatim>\<open>sf.read\<close> catches
  every exception; the \<^verbatim>\<open>try\<close> around the resampling catches \<^verbatim>\<open>ValueError\<close> only.
  The messages printed under \<^verbatim>\<open>verbose\<close> have no effect on the result and are left out.
\<close>

definition audio_stage ::
  "('a, 't, 'c, 'e, 'd::ord) collab \<Rightarrow> (string \<times> pystr) list \<Rightarrow> int \<Rightarrow> 'd \<Rightarrow> 'd \<Rightarrow> string
     \<Rightarrow> ('a list \<times> int \<times> 'a list) outcome" where
  "audio_stage env d assumed_sr min_len max_len path =
     (case map_of d path of
        None \<Rightarrow> Uncaught KeyError
      | Some transcript \<Rightarrow>
          if strip transcript = [] then Skip
          else
            (case sf_read env path of
               Inl e \<Rightarrow> Skip
             | Inr (wave, sr) \<Rightarrow>
                 if sr \<noteq> assumed_sr then Skip
                 else if sr = 0 then Uncaught ZeroDivisionError
                 else if \<not> within_bounds min_len (truediv env (length wave) sr) max_len then Skip
                 else
                   (case resample env assumed_sr wave of
                      Inl e \<Rightarrow> if e = ValueError then Skip else Uncaught e
                    | Inr norm_wave \<Rightarrow>
                        if \<not> within_bounds min_len (truediv env (length norm_wave) 16000) max_len
                        then Skip
                        else Done (wave, sr, norm_wave))))"

text \<open>
  Lines 159-171. The strict attempt (\<^verbatim>\<open>handle_missing=False\<close>) is retried in
  permissive mode only after a \<^verbatim>\<open>KeyError\<close>; an exception raised by the retry inside
  the inner handler reaches the outer \<^verbatim>\<open>except ValueError\<close> and \<^verbatim>\<open>except KeyError\<close>
  clauses. Exceptions of any other type are caught by neither \<^verbatim>\<open>try\<close>.
\<close>

definition encode_text ::
  "('a, 't, 'c, 'e, 'd) collab \<Rightarrow> pystr \<Rightarrow> bool \<Rightarrow> bool \<Rightarrow> 't outcome" where
  "encode_text env transcript phone_input allow_unknown_symbols =
     (case string_to_tensor env transcript False phone_input of
        Inr cached_text \<Rightarrow> Done cached_text
      | Inl e \<Rightarrow>
          if e = KeyError then
            (case string_to_tensor env transcript True phone_input of
               Inr cached_text \<Rightarrow>
                 if \<not> allow_unknown_symbols then Skip else Done cached_text
             | Inl e' \<Rightarrow>
                 if e' = ValueError \<or> e' = KeyError then Skip else Uncaught e')
          else if e = ValueError then Skip
          else Uncaught e)"

text \<open>
  The whole loop body for one path. A finished pass yields the record that line 174
  appends: \<^verbatim>\<open>[cached_text, cached_speech, norm_wave, path]\<close>.
\<close>

type_synonym ('a, 't, 'c) cached = "'t \<times> 'c \<times> 'a list \<times> string"

definition process_path ::
  "('a, 't, 'c, 'e, 'd::ord) collab \<Rightarrow> (string \<times> pystr) list \<Rightarrow> int \<Rightarrow> 'd \<Rightarrow> 'd \<Rightarrow> bool \<Rightarrow> bool
     \<Rightarrow> string \<Rightarrow> ('a, 't, 'c) cached outcome" where
  "process_path env d assumed_sr min_len max_len phone_input allow_unknown_symbols path =
     (case audio_stage env d assumed_sr min_len max_len path of
        Skip \<Rightarrow> Skip
      | Uncaught e \<Rightarrow> Uncaught e
      | Done (wave, sr, norm_wave) \<Rightarrow>
          (case map_of d path of
             None \<Rightarrow> Uncaught KeyError
           | Some transcript \<Rightarrow>
               (case encode_text env transcript phone_input allow_unknown_symbols of
                  Skip \<Rightarrow> Skip
                | Uncaught e \<Rightarrow> Uncaught e
                | Done cached_text \<Rightarrow>
                    (case audio_to_codebook_indexes env assumed_sr wave sr of
                       Inl e \<Rightarrow> Uncaught e
                     | Inr cached_speech \<Rightarrow>
                         Done (cached_text, cached_speech, norm_wave, path)))))"

subsection \<open>\<^verbatim>\<open>cache_builder_process\<close> (lines 112-178)\<close>

text \<open>
  The \<^verbatim>\<open>for path in tqdm(path_list)\<close> loop with its accumulator
  \<^verbatim>\<open>process_internal_dataset_chunk\<close>. An uncaught exception ends the worker process.
\<close>

fun builder_loop ::
  "('a, 't, 'c, 'e, 'd::ord) collab \<Rightarrow> (string \<times> pystr) list \<Rightarrow> int \<Rightarrow> 'd \<Rightarrow> 'd \<Rightarrow> bool \<Rightarrow> bool
     \<Rightarrow> string list \<Rightarrow> ('a, 't, 'c) cached list \<Rightarrow> py_error + ('a, 't, 'c) cached list" where
  "builder_loop env d assumed_sr min_len max_len phone_input allow [] chunk = Inr chunk"
| "builder_loop env d assumed_sr min_len max_len phone_input allow (path # rest) chunk =
     (case process_path env d assumed_sr min_len max_len phone_input allow path of
        Skip \<Rightarrow> builder_loop env d assumed_sr min_len max_len phone_input allow rest chunk
      | Done dp \<Rightarrow>
          builder_loop env d assumed_sr min_len max_len phone_input allow rest (chunk @ [dp])
      | Uncaught e \<Rightarrow> Inl e)"

text \<open>
  The worker. \<^verbatim>\<open>path_list[0]\<close> raises \<^verbatim>\<open>IndexError\<close> on an empty list, and the first
  \<^verbatim>\<open>sf.read\<close> stands outside every \<^verbatim>\<open>try\<close>. The result \<open>Inr chunk\<close> means that line 178
  was reached and \<open>chunk\<close> was appended to the result pool; \<open>Inl e\<close> means that the
  process died of the exception \<open>e\<close> and appended nothing.
\<close>

definition cache_builder_process ::
  "('a, 't, 'c, 'e, 'd::ord) collab \<Rightarrow> (string \<times> pystr) list \<Rightarrow> string list \<Rightarrow> 'd \<Rightarrow> 'd \<Rightarrow> bool
     \<Rightarrow> bool \<Rightarrow> py_error + ('a, 't, 'c) cached list" where
  "cache_builder_process env d path_list min_len max_len phone_input allow_unknown_symbols =
     (case path_list of
        [] \<Rightarrow> Inl IndexError
      | first # _ \<Rightarrow>
          (case sf_read env first of
             Inl e \<Rightarrow> Inl e
           | Inr (_, sr) \<Rightarrow>
               builder_loop env d sr min_len max_len phone_input allow_unknown_symbols
                 path_list []))"

subsection \<open>The constructor \<^verbatim>\<open>__init__\<close> (lines 20-110)\<close>

text \<open>
  The cache directory is the part of the world the constructor reads and writes: the
  blob \<^verbatim>\<open>aligner_train_cache.pt\<close> (absent, or the tuple that \<^verbatim>\<open>torch.save\<close> stored,
  which \<^verbatim>\<open>torch.load\<close> gives back), the note \<^verbatim>\<open>files_used.txt\<close> (the key list whose
  \<^verbatim>\<open>str\<close> was written), and a log of the effects in the order they happen. The
  second slot of the blob is always \<^verbatim>\<open>None\<close>.
\<close>

datatype event =
    FilesUsedWritten
  | ProcessStarted nat
  | CacheSaved
  | CacheLoaded

type_synonym ('t, 'c, 'e) blob = "('t \<times> 'c) list \<times> unit \<times> 'e list \<times> string list"

record ('t, 'c, 'e) world =
  cache_file :: "('t, 'c, 'e) blob option"
  files_used :: "string list option"
  events :: "event list"

text \<open>The fields of the object that later methods read.\<close>

record ('t, 'c, 'e) dataset =
  datapoints :: "('t \<times> 'c) list"
  speaker_embeddings :: "'e list"
  ap_created :: bool

text \<open>
  \<^verbatim>\<open>path_to_transcript_dict\<close> is the dictionary itself or a function that returns it
  (line 35).
\<close>

datatype transcript_source =
    IsDict "(string \<times> pystr) list"
  | Factory "unit \<Rightarrow> (string \<times> pystr) list"

fun the_dict :: "transcript_source \<Rightarrow> (string \<times> pystr) list" where
  "the_dict (IsDict d) = d"
| "the_dict (Factory f) = f ()"

text \<open>
  The worker processes run concurrently; each appends its chunk to the shared list
  when it finishes, so the order of the chunks is the order in which the workers
  finish. That order is the parameter \<open>finish_order\<close>, a list of worker numbers. A
  worker that died appended nothing.
\<close>

definition result_pool ::
  "('a, 't, 'c, 'e, 'd::ord) collab \<Rightarrow> (string \<times> pystr) list \<Rightarrow> string list list \<Rightarrow> 'd \<Rightarrow> 'd
     \<Rightarrow> bool \<Rightarrow> bool \<Rightarrow> nat list \<Rightarrow> ('a, 't, 'c) cached list list" where
  "result_pool env d splits min_len max_len phone_input allow finish_order =
     List.map_filter
       (\<lambda>i. if i < length splits
             then (case cache_builder_process env d (splits ! i) min_len max_len
                          phone_input allow of
                     Inl e \<Rightarrow> None
                   | Inr chunk \<Rightarrow> Some chunk)
             else None)
       finish_order"

text \<open>
  Lines 47-72 for the shuffled key list: slice it, run one worker per slice, and
  unpack the chunks of the result pool into \<^verbatim>\<open>pooled_datapoints\<close>.
\<close>

definition pooled_datapoints ::
  "('a, 't, 'c, 'e, 'd::ord) collab \<Rightarrow> (string \<times> pystr) list \<Rightarrow> string list \<Rightarrow> nat list \<Rightarrow> int
     \<Rightarrow> 'd \<Rightarrow> 'd \<Rightarrow> bool \<Rightarrow> bool \<Rightarrow> ('a, 't, 'c) cached list" where
  "pooled_datapoints env d key_list finish_order loading_processes min_len max_len
       phone_input allow =
     concat (result_pool env d (key_splits key_list loading_processes)
               min_len max_len phone_input allow finish_order)"

text \<open>The second pass of lines 93-95, appending one embedding per waveform.\<close>

fun embed_loop ::
  "('a, 't, 'c, 'e, 'd) collab \<Rightarrow> 'a list list \<Rightarrow> 'e list \<Rightarrow> py_error + 'e list" where
  "embed_loop env [] embs = Inr embs"
| "embed_loop env (wave # rest) embs =
     (case encode_batch env wave of
        Inl e \<Rightarrow> Inl e
      | Inr emb \<Rightarrow> embed_loop env rest (embs @ [emb]))"

text \<open>
  The branch that builds the cache (lines 34-101). It returns the world it leaves
  behind together with the exception raised or the fields of the new object.
\<close>

definition build ::
  "('a, 't, 'c, 'e, 'd::ord) collab \<Rightarrow> transcript_source \<Rightarrow> ('t, 'c, 'e) world \<Rightarrow> (nat \<Rightarrow> nat)
     \<Rightarrow> nat list \<Rightarrow> int \<Rightarrow> 'd \<Rightarrow> 'd \<Rightarrow> bool \<Rightarrow> bool
     \<Rightarrow> ('t, 'c, 'e) world \<times> (py_error + ('t, 'c, 'e) dataset)" where
  "build env src w rnd finish_order loading_processes min_len max_len phone_input allow =
     (let d = the_dict src;
          key_list = map fst d;
          w1 = w\<lparr>files_used := Some key_list, events := events w @ [FilesUsedWritten]\<rparr>
      in case fisher_yates_shuffle rnd key_list of
           Inl e \<Rightarrow> (w1, Inl e)
         | Inr shuffled \<Rightarrow>
             (let w2 = w1\<lparr>events := events w1
                                  @ map ProcessStarted [0 ..< nat loading_processes]\<rparr>;
                  pool = pooled_datapoints env d shuffled finish_order loading_processes
                           min_len max_len phone_input allow;
                  text_tensors = map (\<lambda>x. short_tensor_text env (fst x)) pool;
                  speech_tensors = map (\<lambda>x. short_tensor_speech env (fst (snd x))) pool;
                  norm_waves = map (\<lambda>x. float_tensor env (fst (snd (snd x)))) pool;
                  filepaths = map (\<lambda>x. snd (snd (snd x))) pool;
                  dps = zip text_tensors speech_tensors
              in case embed_loop env norm_waves [] of
                   Inl e \<Rightarrow> (w2, Inl e)
                 | Inr embs \<Rightarrow>
                     if length dps = 0 then (w2, Inl RuntimeError)
                     else
                       (w2\<lparr>cache_file := Some (dps, (), embs, filepaths),
                           events := events w2 @ [CacheSaved]\<rparr>,
                        Inr \<lparr>datapoints = dps, speaker_embeddings = embs,
                             ap_created = False\<rparr>)))"

text \<open>The branch that loads the cache (lines 104-106): slots 0 and 2 of the blob.\<close>

definition load ::
  "('t, 'c, 'e) blob \<Rightarrow> ('t, 'c, 'e) world
     \<Rightarrow> ('t, 'c, 'e) world \<times> (py_error + ('t, 'c, 'e) dataset)" where
  "load b w =
     (w\<lparr>events := events w @ [CacheLoaded]\<rparr>,
      Inr \<lparr>datapoints = fst b, speaker_embeddings = fst (snd (snd b)),
           ap_created = False\<rparr>)"

text \<open>
  Line 33: \<^verbatim>\<open>if not os.path.exists(...) or rebuild_cache\<close>. Both branches end with
  \<^verbatim>\<open>self.ap = None\<close>.
\<close>

definition init ::
  "('a, 't, 'c, 'e, 'd::ord) collab \<Rightarrow> transcript_source \<Rightarrow> ('t, 'c, 'e) world \<Rightarrow> (nat \<Rightarrow> nat)
     \<Rightarrow> nat list \<Rightarrow> int \<Rightarrow> 'd \<Rightarrow> 'd \<Rightarrow> bool \<Rightarrow> bool \<Rightarrow> bool
     \<Rightarrow> ('t, 'c, 'e) world \<times> (py_error + ('t, 'c, 'e) dataset)" where
  "init env src w rnd finish_order loading_processes min_len max_len rebuild_cache
       phone_input allow =
     (case cache_file w of
        None \<Rightarrow>
          build env src w rnd finish_order loading_processes min_len max_len phone_input allow
      | Some b \<Rightarrow>
          if rebuild_cache
          then build env src w rnd finish_order loading_processes min_len max_len
                 phone_input allow
          else load b w)"

subsection \<open>\<^verbatim>\<open>__getitem__\<close> (lines 180-194)\<close>

text \<open>
  \<^verbatim>\<open>self.datapoints[index]\<close> and \<^verbatim>\<open>self.speaker_embeddings[index]\<close> on Python lists:
  positions \<open>0 \<dots> len - 1\<close> are read directly, positions \<open>-len \<dots> -1\<close> are read
  relative to the end, and every other position raises \<^verbatim>\<open>IndexError\<close>.
\<close>

definition py_index :: "'x list \<Rightarrow> int \<Rightarrow> py_error + 'x" where
  "py_index xs index =
     (if 0 \<le> index \<and> index < int (length xs) then Inr (xs ! nat index)
      else if index < 0 \<and> - int (length xs) \<le> index
        then Inr (xs ! nat (int (length xs) + index))
      else Inl IndexError)"

text \<open>
  The collaborators of the view are pure functions: the text frontend's
  \<^verbatim>\<open>text_vectors_to_id_sequence\<close>, the length of a stored code tensor, and the codec's
  \<^verbatim>\<open>indexes_to_codec_frames\<close> with the conversions around it. The decoder is created
  on the first access (\<open>ap_created\<close>).
\<close>

record ('t, 'c, 'f) view_collab =
  text_vectors_to_id_sequence :: "'t \<Rightarrow> int list"
  tensor_len :: "'c \<Rightarrow> nat"
  indexes_to_codec_frames :: "'c \<Rightarrow> 'f"

definition getitem ::
  "('t, 'c, 'f) view_collab \<Rightarrow> ('t, 'c, 'e) dataset \<Rightarrow> int
     \<Rightarrow> ('t, 'c, 'e) dataset \<times> (py_error + (int list \<times> int list \<times> 'f \<times> int list \<times> 'e))" where
  "getitem venv self index =
     (let self' = self\<lparr>ap_created := True\<rparr>
      in case py_index (datapoints self) index of
           Inl e \<Rightarrow> (self', Inl e)
         | Inr dp \<Rightarrow>
             (let text_vector = fst dp;
                  tokens = text_vectors_to_id_sequence venv text_vector;
                  token_len = [int (length tokens)];
                  speech_indexes = snd dp;
                  speech_len = [int (tensor_len venv speech_indexes)];
                  speech = indexes_to_codec_frames venv speech_indexes
              in case py_index (speaker_embeddings self) index of
                   Inl e \<Rightarrow> (self', Inl e)
                 | Inr emb \<Rightarrow> (self', Inr (tokens, token_len, speech, speech_len, emb))))"

subsection \<open>A small concrete setting\<close>

text \<open>
  A toy instance on which the definitions are evaluated: three files at a sample rate
  of 1 Hz, of which \<^verbatim>\<open>c.wav\<close> cannot be read; a resampler that keeps the frames; a
  text frontend for which the code point 63 is the only unknown symbol and which
  encodes a text by its length; a codec and an embedding that count and add frames.
\<close>

definition demo_env :: "(nat, nat, nat, nat, rat) collab" where
  "demo_env =
     \<lparr>truediv = (\<lambda>n k. of_nat n / of_int k),
      sf_read = (\<lambda>path. if path = ''a.wav'' then Inr ([1, 2, 3], 1)
                        else if path = ''b.wav'' then Inr ([4, 5], 1)
                        else Inl OtherError),
      resample = (\<lambda>sr wave. Inr wave),
      string_to_tensor = (\<lambda>text handle_missing input_phonemes.
                            if 63 \<in> set text \<and> \<not> handle_missing then Inl KeyError
                            else Inr (length text)),
      audio_to_codebook_indexes = (\<lambda>input_sr wave sr. Inr (length wave)),
      short_tensor_text = (\<lambda>x. x),
      short_tensor_speech = (\<lambda>x. x),
      float_tensor = (\<lambda>wave. wave),
      encode_batch = (\<lambda>wave. Inr (sum_list wave))\<rparr>"

definition demo_dict :: "(string \<times> pystr) list" where
  "demo_dict = [(''a.wav'', [104, 105]), (''b.wav'', [63]), (''c.wav'', [104])]"

text \<open>The same setting with a text frontend that fails with some other exception.\<close>

definition broken_frontend_env :: "(nat, nat, nat, nat, rat) collab" where
  "broken_frontend_env =
     demo_env\<lparr>string_to_tensor := (\<lambda>text handle_missing input_phonemes. Inl OtherError)\<rparr>"

text \<open>
  The same setting with the resampling step as the library performs it. Line 148 calls
  \<^verbatim>\<open>torch.Tensor(wave, device=device, dtype=torch.float)\<close>; the legacy constructor
  \<^verbatim>\<open>torch.Tensor\<close> accepts a \<^verbatim>\<open>device\<close> keyword but no \<^verbatim>\<open>dtype\<close> keyword and raises
  \<^verbatim>\<open>TypeError\<close> for every argument, before the resampler is applied.
\<close>

definition line_148_env :: "(nat, nat, nat, nat, rat) collab" where
  "line_148_env = demo_env\<lparr>resample := (\<lambda>sr wave. Inl TypeError)\<rparr>"

text \<open>A dictionary with the single file whose transcript has the unknown symbol.\<close>

definition unknown_symbol_dict :: "(string \<times> pystr) list" where
  "unknown_symbol_dict = [(''b.wav'', [63])]"

definition demo_view :: "(nat, nat, nat) view_collab" where
  "demo_view =
     \<lparr>text_vectors_to_id_sequence = (\<lambda>t. [int t]),
      tensor_len = (\<lambda>c. c),
      indexes_to_codec_frames = (\<lambda>c. c)\<rparr>"

definition empty_world :: "(nat, nat, nat) world" where
  "empty_world = \<lparr>cache_file = None, files_used = None, events = []\<rparr>"

text \<open>
  The world and the object that the constructor leaves behind in the toy setting
  (two workers, of which the second finishes first; bounds of 0 and 15 seconds;
  unknown symbols allowed).
\<close>

definition cached_world :: "(nat, nat, nat) world" where
  "cached_world =
     \<lparr>cache_file = Some ([(1, 2), (2, 3)], (), [9, 6], [''b.wav'', ''a.wav'']),
      files_used = Some [''a.wav'', ''b.wav'', ''c.wav''],
      events = [FilesUsedWritten, ProcessStarted 0, ProcessStarted 1, CacheSaved]\<rparr>"

definition cached_dataset :: "(nat, nat, nat) dataset" where
  "cached_dataset =
     \<lparr>datapoints = [(1, 2), (2, 3)], speaker_embeddings = [9, 6], ap_created = False\<rparr>"

subsection \<open>Notation for the duration property\<close>

text \<open>
  The file at \<open>path\<close> passed both duration tests and resampled to \<open>norm_wave\<close>: it
  reads as some \<open>wave\<close> at some rate \<open>sr\<close> with
  \<open>min_len \<le> len(wave) / sr \<le> max_len\<close>, resampling that wave gives \<open>norm_wave\<close>, and
  \<open>min_len \<le> len(norm_wave) / 16000 \<le> max_len\<close>.
\<close>

abbreviation durations_within ::
  "('a, 't, 'c, 'e, 'd::ord) collab \<Rightarrow> 'd \<Rightarrow> 'd \<Rightarrow> string \<Rightarrow> 'a list \<Rightarrow> bool" where
  "durations_within env min_len max_len path norm_wave \<equiv>
     (\<exists>wave sr.
        sf_read env path = Inr (wave, sr)
      \<and> min_len \<le> truediv env (length wave) sr \<and> truediv env (length wave) sr \<le> max_len
      \<and> resample env sr wave = Inr norm_wave
      \<and> min_len \<le> truediv env (length norm_wave) 16000
      \<and> truediv env (length norm_wave) 16000 \<le> max_len)"

section \<open>Properties\<close>

subsection \<open>The shuffle\<close>

lemma randint_range:
  "a \<le> b \<Longrightarrow> \<exists>j. randint rnd k a b = Inr j \<and> a \<le> j \<and> j \<le> b"
proof -
  assume ab: "a \<le> b"
  have "rnd k mod (b - a + 1) < b - a + 1" by simp
  then have "rnd k mod (b - a + 1) \<le> b - a" by linarith
  with ab have "a + rnd k mod (b - a + 1) \<le> b" by linarith
  with ab show ?thesis by (simp add: randint_def)
qed

lemma swap_items_mset:
  assumes "i < length lst" and "j < length lst"
  shows "\<exists>lst'. swap_items lst i j = Inr lst' \<and> mset lst' = mset lst
            \<and> length lst' = length lst"
  using assms by (simp add: swap_items_def mset_swap)

lemma shuffle_loop_perm:
  "i < length lst \<or> lst = [] \<and> i = 0 \<Longrightarrow>
   \<exists>ys. shuffle_loop rnd k i lst = Inr ys \<and> mset ys = mset lst \<and> length ys = length lst"
proof (induction i arbitrary: k lst)
  case 0
  show ?case by simp
next
  case (Suc i)
  then have len: "Suc i < length lst" by auto
  obtain j where j: "randint rnd k 0 (Suc i) = Inr j" "j \<le> Suc i"
    using randint_range [of 0 "Suc i" rnd k] by auto
  with len have "j < length lst" by simp
  with len obtain lst' where sw: "swap_items lst (Suc i) j = Inr lst'"
      "mset lst' = mset lst" "length lst' = length lst"
    using swap_items_mset [of "Suc i" lst j] by auto
  from len sw have "i < length lst'" by simp
  then obtain ys where "shuffle_loop rnd (Suc k) i lst' = Inr ys"
      "mset ys = mset lst'" "length ys = length lst'"
    using Suc.IH [of lst' "Suc k"] by auto
  with j sw show ?case by simp
qed

lemma fisher_yates_shuffle_perm:
  "\<exists>ys. fisher_yates_shuffle rnd lst = Inr ys \<and> mset ys = mset lst
        \<and> length ys = length lst"
proof -
  have "length lst - 1 < length lst \<or> lst = [] \<and> length lst - 1 = 0"
    by (cases lst) simp_all
  then show ?thesis
    unfolding fisher_yates_shuffle_def by (rule shuffle_loop_perm)
qed

lemma fisher_yates_shuffle_short:
  "length lst \<le> 1 \<Longrightarrow> fisher_yates_shuffle rnd lst = Inr lst"
proof -
  assume "length lst \<le> 1"
  then have "length lst - 1 = 0" by simp
  then show ?thesis by (simp add: fisher_yates_shuffle_def)
qed

text \<open>
  Claim C1. For every input list and every behaviour of the random source,
  \<^verbatim>\<open>fisher_yates_shuffle\<close> returns normally, the list it leaves behind has the same
  multiset of elements (and the same length) as the input, and a list of length 0 or 1
  is left exactly as it was.
\<close>

theorem C1_shuffle_is_permutation:
  "\<exists>ys. fisher_yates_shuffle rnd lst = Inr ys
        \<and> mset ys = mset lst
        \<and> length ys = length lst
        \<and> (length lst \<le> 1 \<longrightarrow> ys = lst)"
proof -
  obtain ys where ys: "fisher_yates_shuffle rnd lst = Inr ys" "mset ys = mset lst"
      "length ys = length lst"
    using fisher_yates_shuffle_perm [of rnd lst] by auto
  have "length lst \<le> 1 \<longrightarrow> ys = lst"
    using ys(1) fisher_yates_shuffle_short [of lst rnd] by auto
  with ys show ?thesis by simp
qed

theorem C1_shuffle_is_permutation_witness:
  "length [7::nat] \<le> 1
   \<and> fisher_yates_shuffle (\<lambda>k. k) [7::nat] = Inr [7]
   \<and> (\<exists>ys. fisher_yates_shuffle (\<lambda>k. k) [1, 2, 3::nat] = Inr ys
            \<and> mset ys = mset [1, 2, 3] \<and> length ys = 3)"
  using C1_shuffle_is_permutation [of "\<lambda>k. k" "[7::nat]"]
    C1_shuffle_is_permutation [of "\<lambda>k. k" "[1, 2, 3::nat]"]
  by auto

subsection \<open>The slices of the key list\<close>

lemma slice_length:
  "a \<le> b \<Longrightarrow> b \<le> length xs \<Longrightarrow> length (slice xs a b) = b - a"
  by (simp add: slice_def)

lemma concat_slices:
  "(\<And>i. i < k \<Longrightarrow> f i \<le> f (Suc i)) \<Longrightarrow> f 0 = 0 \<Longrightarrow>
   concat (map (\<lambda>i. slice xs (f i) (f (Suc i))) [0 ..< k]) = take (f k) xs"
proof (induction k)
  case 0
  then show ?case by simp
next
  case (Suc k)
  have mono: "f k \<le> f (Suc k)" using Suc.prems(1) by simp
  have IH: "concat (map (\<lambda>i. slice xs (f i) (f (Suc i))) [0 ..< k]) = take (f k) xs"
    using Suc.IH Suc.prems by simp
  have "take (f (Suc k)) xs = take (f k + (f (Suc k) - f k)) xs"
    using mono by simp
  also have "\<dots> = take (f k) xs @ take (f (Suc k) - f k) (drop (f k) xs)"
    by (rule take_add)
  finally show ?case using IH by (simp add: slice_def)
qed

lemma split_bound_mono:
  "split_bound n p i \<le> split_bound n p (Suc i)"
  by (simp add: split_bound_def div_le_mono)

lemma split_bound_last:
  "1 \<le> p \<Longrightarrow> split_bound n p (nat p) = n"
  by (simp add: split_bound_def)

lemma split_bound_le:
  "1 \<le> p \<Longrightarrow> i \<le> nat p \<Longrightarrow> split_bound n p i \<le> n"
proof -
  assume p: "1 \<le> p" and i: "i \<le> nat p"
  have "i * n \<le> nat p * n" using i by simp
  then have "i * n div nat p \<le> nat p * n div nat p" by (rule div_le_mono)
  with p show ?thesis by (simp add: split_bound_def)
qed

lemma split_bound_step:
  assumes "1 \<le> p"
  shows "split_bound n p (Suc i) - split_bound n p i = n div nat p
       \<or> split_bound n p (Suc i) - split_bound n p i = n div nat p + 1"
proof -
  define q where "q = nat p"
  have q: "0 < q" using assms by (simp add: q_def)
  have "(i * n + n) div q = i * n div q + n div q + (i * n mod q + n mod q) div q"
    by (rule div_add1_eq)
  moreover have "i * n mod q + n mod q < 2 * q"
    using q mod_less_divisor [of q "i * n"] mod_less_divisor [of q n] by linarith
  then have "(i * n mod q + n mod q) div q < 2"
    using q by (simp add: less_mult_imp_div_less)
  ultimately show ?thesis
    unfolding split_bound_def q_def [symmetric] by (simp add: algebra_simps) linarith
qed

lemma key_splits_concat:
  "1 \<le> p \<Longrightarrow> concat (key_splits keys p) = keys"
proof -
  assume p: "1 \<le> p"
  have "concat (map (\<lambda>i. slice keys (split_bound (length keys) p i)
                            (split_bound (length keys) p (Suc i))) [0 ..< nat p])
        = take (split_bound (length keys) p (nat p)) keys"
    by (rule concat_slices) (simp_all add: split_bound_mono, simp add: split_bound_def)
  with p show ?thesis by (simp add: key_splits_def split_bound_last)
qed

lemma key_splits_nth_length:
  assumes "1 \<le> p" and "i < nat p"
  shows "length (key_splits keys p ! i)
         = split_bound (length keys) p (Suc i) - split_bound (length keys) p i"
proof -
  have "split_bound (length keys) p (Suc i) \<le> length keys"
    using assms by (intro split_bound_le) simp_all
  then show ?thesis
    using assms by (simp add: key_splits_def slice_length split_bound_mono)
qed

lemma concat_nth_segment:
  "i < length ks \<Longrightarrow>
   take (length (ks ! i)) (drop (length (concat (take i ks))) (concat ks)) = ks ! i"
proof -
  assume "i < length ks"
  then have "ks = take i ks @ ks ! i # drop (Suc i) ks"
    by (rule id_take_nth_drop)
  then have "concat ks = concat (take i ks) @ ks ! i @ concat (drop (Suc i) ks)"
    by (metis concat.simps(2) concat_append)
  then show ?thesis by simp
qed

text \<open>
  Claim C2. For every key list and every worker count \<open>p \<ge> 1\<close> there are exactly \<open>p\<close>
  slices; their concatenation in worker order is the key list itself (so every key
  occurs in exactly one slice, with no gap and no overlap); slice \<open>i\<close> is the
  contiguous segment of the key list that starts where the slices before it end; and
  the sizes of any two slices differ by at most one.
\<close>

theorem C2_key_splits_partition:
  assumes "1 \<le> p"
  shows "length (key_splits keys p) = nat p
       \<and> concat (key_splits keys p) = keys
       \<and> (\<forall>i < nat p. key_splits keys p ! i
              = take (length (key_splits keys p ! i))
                  (drop (length (concat (take i (key_splits keys p)))) keys))
       \<and> (\<forall>i < nat p. \<forall>j < nat p.
              length (key_splits keys p ! i) \<le> length (key_splits keys p ! j) + 1)"
proof -
  have len: "length (key_splits keys p) = nat p"
    by (simp add: key_splits_def)
  have cat: "concat (key_splits keys p) = keys"
    using assms by (rule key_splits_concat)
  have seg: "key_splits keys p ! i
              = take (length (key_splits keys p ! i))
                  (drop (length (concat (take i (key_splits keys p)))) keys)"
    if "i < nat p" for i
    using concat_nth_segment [of i "key_splits keys p"] that len cat by simp
  have sizes: "length (key_splits keys p ! i) \<le> length (key_splits keys p ! j) + 1"
    if "i < nat p" and "j < nat p" for i j
    using split_bound_step [OF assms, of "length keys" i]
      split_bound_step [OF assms, of "length keys" j]
      key_splits_nth_length [OF assms that(1), of keys]
      key_splits_nth_length [OF assms that(2), of keys]
    by linarith
  from len cat seg sizes show ?thesis by blast
qed

theorem C2_key_splits_partition_witness:
  "(1::int) \<le> 2
   \<and> key_splits [10, 20, 30, 40, 50::nat] 2 = [[10, 20], [30, 40, 50]]
   \<and> concat (key_splits [10, 20, 30, 40, 50::nat] 2) = [10, 20, 30, 40, 50]"
  using C2_key_splits_partition [of 2 "[10, 20, 30, 40, 50::nat]"]
  by (simp add: key_splits_def slice_def split_bound_def upt_rec)

subsection \<open>What a worker keeps\<close>

lemma audio_stage_Done:
  assumes "audio_stage env d assumed_sr min_len max_len path = Done (wave, sr, norm_wave)"
  shows "(\<exists>transcript. map_of d path = Some transcript \<and> strip transcript \<noteq> [])
       \<and> sf_read env path = Inr (wave, sr) \<and> sr = assumed_sr \<and> sr \<noteq> 0
       \<and> within_bounds min_len (truediv env (length wave) sr) max_len
       \<and> resample env sr wave = Inr norm_wave
       \<and> within_bounds min_len (truediv env (length norm_wave) 16000) max_len"
  using assms unfolding audio_stage_def
  by (auto split: option.splits sum.splits if_splits prod.splits)

lemma process_path_Done:
  assumes "process_path env d assumed_sr min_len max_len phone_input allow path = Done dp"
  shows "\<exists>wave norm_wave cached_text cached_speech.
           audio_stage env d assumed_sr min_len max_len path = Done (wave, assumed_sr, norm_wave)
         \<and> audio_to_codebook_indexes env assumed_sr wave assumed_sr = Inr cached_speech
         \<and> dp = (cached_text, cached_speech, norm_wave, path)"
proof -
  from assms obtain wave sr norm_wave where
    a: "audio_stage env d assumed_sr min_len max_len path = Done (wave, sr, norm_wave)"
    unfolding process_path_def by (auto split: outcome.splits)
  then have sr: "sr = assumed_sr" by (auto dest: audio_stage_Done)
  from assms a show ?thesis
    unfolding process_path_def sr
    by (auto split: outcome.splits option.splits sum.splits)
qed

lemma process_path_durations:
  assumes "process_path env d assumed_sr min_len max_len phone_input allow path = Done dp"
  shows "snd (snd (snd dp)) = path
       \<and> durations_within env min_len max_len path (fst (snd (snd dp)))"
proof -
  from process_path_Done [OF assms] obtain wave norm_wave cached_text cached_speech where
    a: "audio_stage env d assumed_sr min_len max_len path = Done (wave, assumed_sr, norm_wave)"
    and dp: "dp = (cached_text, cached_speech, norm_wave, path)"
    by auto
  from audio_stage_Done [OF a] dp show ?thesis
    by (auto simp: within_bounds_def)
qed

lemma builder_loop_members:
  assumes "builder_loop env d sr min_len max_len phone_input allow paths acc = Inr chunk"
    and "dp \<in> set chunk"
  shows "dp \<in> set acc
       \<or> (\<exists>path \<in> set paths.
             process_path env d sr min_len max_len phone_input allow path = Done dp)"
  using assms
proof (induction paths arbitrary: acc)
  case Nil
  then show ?case by simp
next
  case (Cons path rest)
  show ?case
  proof (cases "process_path env d sr min_len max_len phone_input allow path")
    case Skip
    with Cons.prems Cons.IH [of acc] show ?thesis by auto
  next
    case (Done r)
    with Cons.prems Cons.IH [of "acc @ [r]"] show ?thesis by auto
  next
    case (Uncaught e)
    with Cons.prems show ?thesis by simp
  qed
qed

lemma cache_builder_process_members:
  assumes "cache_builder_process env d path_list min_len max_len phone_input allow = Inr chunk"
    and "dp \<in> set chunk"
  shows "\<exists>sr. \<exists>path \<in> set path_list.
           process_path env d sr min_len max_len phone_input allow path = Done dp"
proof -
  from assms(1) obtain first rest w0 sr where
    "path_list = first # rest" "sf_read env first = Inr (w0, sr)"
    "builder_loop env d sr min_len max_len phone_input allow path_list [] = Inr chunk"
    unfolding cache_builder_process_def
    by (auto split: list.splits sum.splits prod.splits)
  with assms(2) show ?thesis
    using builder_loop_members [of env d sr min_len max_len phone_input allow path_list "[]" chunk dp]
    by auto
qed

lemma result_pool_members:
  assumes "chunk \<in> set (result_pool env d splits min_len max_len phone_input allow order)"
  shows "\<exists>i < length splits.
           cache_builder_process env d (splits ! i) min_len max_len phone_input allow = Inr chunk"
  using assms unfolding result_pool_def
  by (auto simp: List.map_filter_def split: if_splits sum.splits)

lemma set_slice: "set (slice xs a b) \<subseteq> set xs"
  unfolding slice_def by (meson set_take_subset set_drop_subset subset_trans)

lemma key_splits_subset:
  "i < length (key_splits keys p) \<Longrightarrow> set (key_splits keys p ! i) \<subseteq> set keys"
  by (simp add: key_splits_def set_slice)

lemma pooled_datapoints_members:
  assumes "dp \<in> set (pooled_datapoints env d key_list order lp min_len max_len phone_input allow)"
  shows "\<exists>sr. \<exists>path \<in> set key_list.
           process_path env d sr min_len max_len phone_input allow path = Done dp"
proof -
  from assms obtain chunk where
    c: "chunk \<in> set (result_pool env d (key_splits key_list lp) min_len max_len
                       phone_input allow order)" "dp \<in> set chunk"
    unfolding pooled_datapoints_def by auto
  from result_pool_members [OF c(1)] obtain i where
    i: "i < length (key_splits key_list lp)"
       "cache_builder_process env d (key_splits key_list lp ! i) min_len max_len
          phone_input allow = Inr chunk"
    by auto
  from cache_builder_process_members [OF i(2) c(2)] obtain sr path where
    "path \<in> set (key_splits key_list lp ! i)"
    "process_path env d sr min_len max_len phone_input allow path = Done dp"
    by auto
  with key_splits_subset [OF i(1)] show ?thesis by auto
qed

lemma pooled_datapoints_durations:
  assumes "dp \<in> set (pooled_datapoints env d key_list finish_order loading_processes
                        min_len max_len phone_input allow)"
  shows "snd (snd (snd dp)) \<in> set key_list
       \<and> durations_within env min_len max_len (snd (snd (snd dp))) (fst (snd (snd dp)))"
proof -
  from assms obtain sr path where p: "path \<in> set key_list"
    "process_path env d sr min_len max_len phone_input allow path = Done dp"
    using pooled_datapoints_members by blast
  from process_path_durations [OF p(2)] p(1) show ?thesis by blast
qed

lemma first_bound_violated_skip:
  assumes "map_of d path = Some transcript" and "sf_read env path = Inr (wave, sr)"
    and "sr \<noteq> 0"
    and "\<not> within_bounds min_len (truediv env (length wave) sr) max_len"
  shows "process_path env d assumed_sr min_len max_len phone_input allow path = Skip"
  using assms
  by (cases "sr = assumed_sr") (auto simp: process_path_def audio_stage_def)

lemma second_bound_violated_skip:
  assumes "map_of d path = Some transcript" and "sf_read env path = Inr (wave, sr)"
    and "sr \<noteq> 0" and "resample env sr wave = Inr norm_wave"
    and "\<not> within_bounds min_len (truediv env (length norm_wave) 16000) max_len"
  shows "process_path env d assumed_sr min_len max_len phone_input allow path = Skip"
  using assms
  by (cases "sr = assumed_sr") (auto simp: process_path_def audio_stage_def)

lemma bound_violated_absent:
  assumes "sf_read env path = Inr (wave, sr)"
    and "\<not> within_bounds min_len (truediv env (length wave) sr) max_len
         \<or> resample env sr wave = Inr norm_wave
           \<and> \<not> within_bounds min_len (truediv env (length norm_wave) 16000) max_len"
  shows "path \<notin> (\<lambda>x. snd (snd (snd x)))
                  ` set (pooled_datapoints env d key_list finish_order loading_processes
                           min_len max_len phone_input allow)"
proof
  assume "path \<in> (\<lambda>x. snd (snd (snd x)))
                  ` set (pooled_datapoints env d key_list finish_order loading_processes
                           min_len max_len phone_input allow)"
  then obtain dp where "dp \<in> set (pooled_datapoints env d key_list finish_order
                                     loading_processes min_len max_len phone_input allow)"
    and "path = snd (snd (snd dp))"
    by auto
  with pooled_datapoints_durations [of dp env d key_list finish_order loading_processes
      min_len max_len phone_input allow]
  have "durations_within env min_len max_len path (fst (snd (snd dp)))"
    by simp
  with assms show False
    by (auto simp: within_bounds_def)
qed

text \<open>Evaluations in the toy setting.\<close>

lemmas demo_defs = process_path_def audio_stage_def encode_text_def demo_env_def
  demo_dict_def strip_def is_space_def within_bounds_def

lemmas pool_defs = pooled_datapoints_def result_pool_def key_splits_def split_bound_def
  slice_def cache_builder_process_def List.map_filter_def upt_rec

lemma demo_shuffle:
  "fisher_yates_shuffle (\<lambda>k. k) [''a.wav'', ''b.wav'', ''c.wav'']
   = Inr [''c.wav'', ''b.wav'', ''a.wav'']"
  by (simp add: fisher_yates_shuffle_def randint_def swap_items_def numeral_2_eq_2)

lemma demo_pool:
  "pooled_datapoints demo_env demo_dict [''a.wav'', ''b.wav'', ''c.wav''] [1, 0] 2 0 (5/2)
     False True
   = [(1, 2, [4, 5], ''b.wav'')]"
  by (simp add: pool_defs demo_defs)

lemma demo_empty_pool:
  "pooled_datapoints demo_env demo_dict [''c.wav'', ''b.wav'', ''a.wav''] [1, 0] 2 4 15 False True
   = []"
  by (simp add: pool_defs demo_defs)

lemma demo_full_pool:
  "pooled_datapoints demo_env demo_dict [''c.wav'', ''b.wav'', ''a.wav''] [1, 0] 2 0 15 False True
   = [(1, 2, [4, 5], ''b.wav''), (2, 3, [1, 2, 3], ''a.wav'')]"
  by (simp add: pool_defs demo_defs)

subsection \<open>Text encoding\<close>

lemma encode_text_cases:
  "encode_text env transcript phone_input allow =
     (case string_to_tensor env transcript False phone_input of
        Inr t \<Rightarrow> Done t
      | Inl e \<Rightarrow>
          if e = KeyError then
            (case string_to_tensor env transcript True phone_input of
               Inr t \<Rightarrow> if allow then Done t else Skip
             | Inl e' \<Rightarrow> if e' = ValueError \<or> e' = KeyError then Skip else Uncaught e')
          else if e = ValueError then Skip else Uncaught e)"
  by (simp add: encode_text_def split: sum.splits)

text \<open>
  What lines 159-171 do with a sample that has passed the audio tests, for every
  behaviour of the text frontend and the codec.
\<close>

lemma text_encoding_outcomes:
  assumes "audio_stage env d assumed_sr min_len max_len path = Done (wave, sr, norm_wave)"
    and "map_of d path = Some transcript"
  shows
    "(string_to_tensor env transcript False phone_input = Inl KeyError
        \<and> string_to_tensor env transcript True phone_input = Inr cached_text
        \<and> audio_to_codebook_indexes env assumed_sr wave sr = Inr cached_speech
      \<longrightarrow> process_path env d assumed_sr min_len max_len phone_input allow path
            = (if allow then Done (cached_text, cached_speech, norm_wave, path) else Skip)
          \<and> ((\<exists>dp. process_path env d assumed_sr min_len max_len phone_input allow path
                     = Done dp) \<longleftrightarrow> allow))
     \<and> (string_to_tensor env transcript False phone_input = Inl ValueError
          \<or> string_to_tensor env transcript False phone_input = Inl KeyError
            \<and> (string_to_tensor env transcript True phone_input = Inl ValueError
               \<or> string_to_tensor env transcript True phone_input = Inl KeyError)
      \<longrightarrow> process_path env d assumed_sr min_len max_len phone_input allow path = Skip
          \<and> builder_loop env d assumed_sr min_len max_len phone_input allow (path # rest) chunk
            = builder_loop env d assumed_sr min_len max_len phone_input allow rest chunk)
     \<and> (e \<noteq> KeyError \<and> e \<noteq> ValueError
          \<and> (string_to_tensor env transcript False phone_input = Inl e
             \<or> string_to_tensor env transcript False phone_input = Inl KeyError
               \<and> string_to_tensor env transcript True phone_input = Inl e)
      \<longrightarrow> process_path env d assumed_sr min_len max_len phone_input allow path = Uncaught e
          \<and> builder_loop env d assumed_sr min_len max_len phone_input allow (path # rest) chunk
            = Inl e)"
proof -
  have pp: "process_path env d assumed_sr min_len max_len phone_input allow path =
        (case encode_text env transcript phone_input allow of
           Skip \<Rightarrow> Skip
         | Uncaught e \<Rightarrow> Uncaught e
         | Done cached_text \<Rightarrow>
             (case audio_to_codebook_indexes env assumed_sr wave sr of
                Inl e \<Rightarrow> Uncaught e
              | Inr cached_speech \<Rightarrow> Done (cached_text, cached_speech, norm_wave, path)))"
    using assms by (simp add: process_path_def)
  show ?thesis
    unfolding pp encode_text_cases builder_loop.simps by auto
qed

lemma process_path_Done_encoded:
  assumes "process_path env d assumed_sr min_len max_len phone_input allow path = Done dp"
    and "map_of d path = Some transcript"
  shows "\<exists>cached_text. encode_text env transcript phone_input allow = Done cached_text"
  using assms unfolding process_path_def
  by (auto split: outcome.splits sum.splits prod.splits)

lemma unknown_symbol_excluded:
  assumes "map_of d path = Some transcript"
    and "string_to_tensor env transcript False phone_input = Inl KeyError"
  shows "path \<notin> (\<lambda>x. snd (snd (snd x)))
                  ` set (pooled_datapoints env d key_list finish_order loading_processes
                           min_len max_len phone_input False)"
proof
  assume "path \<in> (\<lambda>x. snd (snd (snd x)))
                  ` set (pooled_datapoints env d key_list finish_order loading_processes
                           min_len max_len phone_input False)"
  then obtain dp where dp: "dp \<in> set (pooled_datapoints env d key_list finish_order
                                        loading_processes min_len max_len phone_input False)"
    and p: "path = snd (snd (snd dp))"
    by auto
  from pooled_datapoints_members [OF dp] obtain sr path' where
    pp: "process_path env d sr min_len max_len phone_input False path' = Done dp"
    by blast
  with process_path_durations [OF pp] p have
    "process_path env d sr min_len max_len phone_input False path = Done dp"
    by simp
  from process_path_Done_encoded [OF this assms(1)] assms(2) show False
    by (auto simp: encode_text_cases split: sum.splits if_splits)
qed

text \<open>
  Claim C4. A sample whose transcript fails strict text encoding with an unknown
  symbol and succeeds in permissive mode is to be in the corpus exactly when
  \<^verbatim>\<open>allow_unknown_symbols\<close> is true. With the resampling step of line 148 as the
  library performs it, the code does not reach the text encoding of line 161. For the
  file \<^verbatim>\<open>b.wav\<close>, whose transcript has the unknown symbol (strict encoding raises
  \<^verbatim>\<open>KeyError\<close>, permissive encoding returns), with \<^verbatim>\<open>allow_unknown_symbols\<close> true, one
  worker and bounds of 0 and 15 seconds: the file is read and passes the first
  duration test, the loop body raises \<^verbatim>\<open>TypeError\<close>, which \<^verbatim>\<open>except ValueError\<close> does
  not catch, the worker ends with it and appends no chunk, the pooled list is empty,
  and the constructor raises \<^verbatim>\<open>RuntimeError\<close> and saves nothing. The sample is not in
  the corpus although unknown symbols are allowed.
\<close>

theorem C4_unknown_symbol_sample_lost:
  "map_of unknown_symbol_dict ''b.wav'' = Some [63]
   \<and> string_to_tensor line_148_env [63] False False = Inl KeyError
   \<and> string_to_tensor line_148_env [63] True False = Inr 1
   \<and> sf_read line_148_env ''b.wav'' = Inr ([4, 5], 1)
   \<and> within_bounds 0 (truediv line_148_env (length [4, 5::nat]) 1) 15
   \<and> process_path line_148_env unknown_symbol_dict 1 0 15 False True ''b.wav''
       = Uncaught TypeError
   \<and> cache_builder_process line_148_env unknown_symbol_dict [''b.wav''] 0 15 False True
       = Inl TypeError
   \<and> pooled_datapoints line_148_env unknown_symbol_dict [''b.wav''] [0] 1 0 15 False True = []
   \<and> init line_148_env (IsDict unknown_symbol_dict) empty_world (\<lambda>k. k) [0] 1 0 15
        False False True
       = (\<lparr>cache_file = None, files_used = Some [''b.wav''],
           events = [FilesUsedWritten, ProcessStarted 0]\<rparr>,
          Inl RuntimeError)"
proof -
  have w: "cache_builder_process line_148_env unknown_symbol_dict [''b.wav''] 0 15 False True
           = Inl TypeError"
    by (simp add: cache_builder_process_def line_148_env_def unknown_symbol_dict_def demo_defs)
  have p: "pooled_datapoints line_148_env unknown_symbol_dict [''b.wav''] [0] 1 0 15 False True
           = []"
    by (simp add: pooled_datapoints_def result_pool_def key_splits_def split_bound_def
          slice_def List.map_filter_def upt_rec w)
  have k: "map fst unknown_symbol_dict = [''b.wav'']"
    by (simp add: unknown_symbol_dict_def)
  have s: "fisher_yates_shuffle (\<lambda>k. k) [''b.wav''] = Inr [''b.wav'']"
    by (simp add: fisher_yates_shuffle_def)
  have i: "init line_148_env (IsDict unknown_symbol_dict) empty_world (\<lambda>k. k) [0] 1 0 15
        False False True
       = (\<lparr>cache_file = None, files_used = Some [''b.wav''],
           events = [FilesUsedWritten, ProcessStarted 0]\<rparr>,
          Inl RuntimeError)"
    by (simp add: init_def build_def Let_def empty_world_def k s p upt_rec)
  show ?thesis
    using w p i
    by (simp add: line_148_env_def unknown_symbol_dict_def demo_defs)
qed

subsection \<open>Unreadable files and empty slices\<close>

lemma process_path_unreadable:
  assumes "sf_read env path = Inl e" and "map_of d path = Some transcript"
  shows "process_path env d sr min_len max_len phone_input allow path = Skip"
  using assms by (simp add: process_path_def audio_stage_def)

lemma builder_loop_skip:
  assumes "process_path env d sr min_len max_len phone_input allow path = Skip"
  shows "builder_loop env d sr min_len max_len phone_input allow (before @ path # after) chunk
       = builder_loop env d sr min_len max_len phone_input allow (before @ after) chunk"
proof (induction before arbitrary: chunk)
  case Nil
  show ?case using assms by simp
next
  case (Cons p ps)
  show ?case
    by (cases "process_path env d sr min_len max_len phone_input allow p")
       (simp_all add: Cons.IH)
qed

text \<open>
  Claim C9. If reading the first file of a worker's list fails with an exception \<open>e\<close>,
  the worker ends with \<open>e\<close> whatever the rest of the list is: it appends no chunk and
  tries no other file. If the first file can be read, a later path of the list whose
  file cannot be read (and which is a key of the transcript dictionary, as every key
  handed to a worker is) is only skipped: the worker behaves exactly as if that path
  were not in its list.
\<close>

theorem C9_first_read_fatal_later_read_skipped:
  "(sf_read env first = Inl e
      \<longrightarrow> cache_builder_process env d (first # rest) min_len max_len phone_input allow = Inl e)
   \<and> (sf_read env first = Inr (wave0, sr) \<and> sf_read env path = Inl e
        \<and> map_of d path = Some transcript
      \<longrightarrow> process_path env d sr min_len max_len phone_input allow path = Skip
          \<and> cache_builder_process env d (first # before @ path # after)
                min_len max_len phone_input allow
            = cache_builder_process env d (first # before @ after)
                min_len max_len phone_input allow)"
proof (intro conjI impI)
  assume "sf_read env first = Inl e"
  then show "cache_builder_process env d (first # rest) min_len max_len phone_input allow = Inl e"
    by (simp add: cache_builder_process_def)
next
  assume h: "sf_read env first = Inr (wave0, sr) \<and> sf_read env path = Inl e
        \<and> map_of d path = Some transcript"
  then show skip: "process_path env d sr min_len max_len phone_input allow path = Skip"
    using process_path_unreadable by blast
  have "builder_loop env d sr min_len max_len phone_input allow
          ((first # before) @ path # after) []
        = builder_loop env d sr min_len max_len phone_input allow ((first # before) @ after) []"
    using skip by (rule builder_loop_skip)
  with h show "cache_builder_process env d (first # before @ path # after)
                min_len max_len phone_input allow
            = cache_builder_process env d (first # before @ after)
                min_len max_len phone_input allow"
    by (simp add: cache_builder_process_def)
qed

theorem C9_first_read_fatal_later_read_skipped_witness:
  "sf_read demo_env ''c.wav'' = Inl OtherError
   \<and> cache_builder_process demo_env demo_dict [''c.wav'', ''a.wav''] 0 15 False True
       = Inl OtherError
   \<and> sf_read demo_env ''a.wav'' = Inr ([1, 2, 3], 1)
   \<and> map_of demo_dict ''c.wav'' = Some [104]
   \<and> cache_builder_process demo_env demo_dict [''a.wav'', ''c.wav'', ''b.wav''] 0 15 False True
       = cache_builder_process demo_env demo_dict [''a.wav'', ''b.wav''] 0 15 False True
   \<and> cache_builder_process demo_env demo_dict [''a.wav'', ''b.wav''] 0 15 False True
       = Inr [(2, 3, [1, 2, 3], ''a.wav''), (1, 2, [4, 5], ''b.wav'')]"
proof -
  have r: "sf_read demo_env ''c.wav'' = Inl OtherError"
      "sf_read demo_env ''a.wav'' = Inr ([1, 2, 3], 1)"
    by (simp_all add: demo_env_def)
  have m: "map_of demo_dict ''c.wav'' = Some [104]"
    by (simp add: demo_dict_def)
  have v: "cache_builder_process demo_env demo_dict [''a.wav'', ''b.wav''] 0 15 False True
       = Inr [(2, 3, [1, 2, 3], ''a.wav''), (1, 2, [4, 5], ''b.wav'')]"
    by (simp add: cache_builder_process_def demo_defs)
  show ?thesis
    using r m v
      C9_first_read_fatal_later_read_skipped [of demo_env "''c.wav''" OtherError demo_dict
        "[''a.wav'']" 0 15 False True "[1, 2, 3]" 1 "''c.wav''" "[104]" "[]" "[]"]
      C9_first_read_fatal_later_read_skipped [of demo_env "''a.wav''" OtherError demo_dict
        "[]" 0 15 False True "[1, 2, 3]" 1 "''c.wav''" "[104]" "[]" "[''b.wav'']"]
    by simp
qed

lemma first_split_empty:
  assumes "int (length key_list) < loading_processes"
  shows "0 < nat loading_processes \<and> key_splits key_list loading_processes ! 0 = []"
proof -
  from assms have p: "0 < nat loading_processes" "length key_list < nat loading_processes"
    by simp_all
  then have "split_bound (length key_list) loading_processes (Suc 0) = 0"
    by (simp add: split_bound_def)
  with p show ?thesis
    by (simp add: key_splits_def slice_def upt_rec [of 0])
qed

lemma result_pool_filter:
  "result_pool env d splits min_len max_len phone_input allow finish_order
   = result_pool env d splits min_len max_len phone_input allow
       (filter (\<lambda>i. i < length splits \<and> splits ! i \<noteq> []) finish_order)"
  unfolding result_pool_def List.map_filter_def
  by (induction finish_order) (auto simp: cache_builder_process_def)

text \<open>
  Claim C10. If there are more workers than keys, some worker's slice is empty; the
  worker called with an empty list ends at once with \<^verbatim>\<open>IndexError\<close> (the probe
  \<^verbatim>\<open>path_list[0]\<close>); and the result pool is the one obtained from the workers with a
  non-empty slice alone, so the workers with an empty slice append nothing.
\<close>

theorem C10_empty_partition_crashes:
  assumes "int (length key_list) < loading_processes"
  shows "(\<exists>i < nat loading_processes. key_splits key_list loading_processes ! i = [])
       \<and> cache_builder_process env d [] min_len max_len phone_input allow = Inl IndexError
       \<and> result_pool env d (key_splits key_list loading_processes) min_len max_len
           phone_input allow finish_order
         = result_pool env d (key_splits key_list loading_processes) min_len max_len
             phone_input allow
             (filter (\<lambda>i. i < nat loading_processes
                           \<and> key_splits key_list loading_processes ! i \<noteq> []) finish_order)"
proof -
  have "length (key_splits key_list loading_processes) = nat loading_processes"
    by (simp add: key_splits_def)
  moreover have "\<exists>i < nat loading_processes. key_splits key_list loading_processes ! i = []"
    using first_split_empty [OF assms] by blast
  moreover have "cache_builder_process env d [] min_len max_len phone_input allow
                 = Inl IndexError"
    by (simp add: cache_builder_process_def)
  ultimately show ?thesis
    using result_pool_filter [of env d "key_splits key_list loading_processes" min_len max_len
        phone_input allow finish_order]
    by simp
qed

theorem C10_empty_partition_crashes_witness:
  "int (length [''a.wav'', ''b.wav'']) < 3
   \<and> key_splits [''a.wav'', ''b.wav''] 3 = [[], [''a.wav''], [''b.wav'']]
   \<and> cache_builder_process demo_env demo_dict [] 0 15 False True = Inl IndexError
   \<and> result_pool demo_env demo_dict (key_splits [''a.wav'', ''b.wav''] 3) 0 15 False True
        [0, 1, 2]
      = [[(2, 3, [1, 2, 3], ''a.wav'')], [(1, 2, [4, 5], ''b.wav'')]]"
  using C10_empty_partition_crashes [of "[''a.wav'', ''b.wav'']" 3 demo_env demo_dict 0 15
      False True "[0, 1, 2]"]
  by (simp add: key_splits_def split_bound_def slice_def upt_rec result_pool_def
       List.map_filter_def cache_builder_process_def demo_defs)

subsection \<open>The constructor\<close>

lemma embed_loop_nth:
  assumes "embed_loop env waves acc = Inr embs"
  shows "length embs = length acc + length waves
       \<and> (\<forall>i < length acc. embs ! i = acc ! i)
       \<and> (\<forall>i < length waves. encode_batch env (waves ! i) = Inr (embs ! (length acc + i)))"
  using assms
proof (induction waves arbitrary: acc)
  case Nil
  then show ?case by simp
next
  case (Cons wave rest)
  from Cons.prems obtain emb where emb: "encode_batch env wave = Inr emb"
    and rest: "embed_loop env rest (acc @ [emb]) = Inr embs"
    by (auto split: sum.splits)
  note IH = Cons.IH [OF rest]
  have len: "length embs = length acc + length (wave # rest)"
    using IH by simp
  have old: "embs ! i = acc ! i" if "i < length acc" for i
    using IH that by (auto simp: nth_append)
  have here: "embs ! length acc = emb"
    using IH by (auto simp: nth_append)
  have new: "encode_batch env ((wave # rest) ! i) = Inr (embs ! (length acc + i))"
    if "i < length (wave # rest)" for i
  proof (cases i)
    case 0
    with emb here show ?thesis by simp
  next
    case (Suc j)
    with that IH show ?thesis by simp
  qed
  from len old new show ?case by blast
qed

lemma build_success:
  assumes "build env src w rnd finish_order lp min_len max_len phone_input allow = (w', Inr ds)"
  shows "\<exists>shuffled embs.
           fisher_yates_shuffle rnd (map fst (the_dict src)) = Inr shuffled
         \<and> embed_loop env
               (map (\<lambda>x. float_tensor env (fst (snd (snd x))))
                  (pooled_datapoints env (the_dict src) shuffled finish_order lp
                     min_len max_len phone_input allow)) [] = Inr embs
         \<and> pooled_datapoints env (the_dict src) shuffled finish_order lp
               min_len max_len phone_input allow \<noteq> []
         \<and> datapoints ds
             = zip (map (\<lambda>x. short_tensor_text env (fst x))
                      (pooled_datapoints env (the_dict src) shuffled finish_order lp
                         min_len max_len phone_input allow))
                   (map (\<lambda>x. short_tensor_speech env (fst (snd x)))
                      (pooled_datapoints env (the_dict src) shuffled finish_order lp
                         min_len max_len phone_input allow))
         \<and> speaker_embeddings ds = embs
         \<and> ap_created ds = False
         \<and> cache_file w'
             = Some (datapoints ds, (), embs,
                     map (\<lambda>x. snd (snd (snd x)))
                       (pooled_datapoints env (the_dict src) shuffled finish_order lp
                          min_len max_len phone_input allow))"
  using assms unfolding build_def Let_def
  by (auto split: sum.splits if_splits)

lemma build_events:
  "\<exists>rest. events (fst (build env src w rnd finish_order lp min_len max_len phone_input allow))
          = events w @ FilesUsedWritten # rest"
  unfolding build_def Let_def
  by (auto split: sum.splits)

lemma build_empty:
  assumes "fisher_yates_shuffle rnd (map fst (the_dict src)) = Inr shuffled"
    and "pooled_datapoints env (the_dict src) shuffled finish_order lp
           min_len max_len phone_input allow = []"
  shows "build env src w rnd finish_order lp min_len max_len phone_input allow
       = (w\<lparr>files_used := Some (map fst (the_dict src)),
            events := events w @ FilesUsedWritten # map ProcessStarted [0 ..< nat lp]\<rparr>,
          Inl RuntimeError)"
  using assms unfolding build_def Let_def by simp

lemma demo_init:
  "init demo_env (IsDict demo_dict) empty_world (\<lambda>k. k) [1, 0] 2 0 15 False False True
   = (cached_world, Inr cached_dataset)"
proof -
  have k: "map fst demo_dict = [''a.wav'', ''b.wav'', ''c.wav'']"
    by (simp add: demo_dict_def)
  have e: "encode_batch demo_env = (\<lambda>wave. Inr (sum_list wave))"
      "float_tensor demo_env = (\<lambda>wave. wave)"
      "short_tensor_text demo_env = (\<lambda>x. x)"
      "short_tensor_speech demo_env = (\<lambda>x. x)"
    by (simp_all add: demo_env_def)
  show ?thesis
    by (simp add: init_def build_def Let_def empty_world_def k demo_shuffle
          demo_full_pool [simplified] e cached_world_def cached_dataset_def upt_rec)
qed

text \<open>
  Claim C3. A pass of the per-key pipeline that ends by appending a record for a path
  has seen both duration tests succeed: \<open>min_len \<le> len(wave) / sr \<le> max_len\<close> at the
  native rate and \<open>min_len \<le> len(norm_wave) / 16000 \<le> max_len\<close> for the resampled
  wave that the record stores. The same holds for every record of the pooled list,
  for every number of workers and every order in which they finish, and for every
  source path of the corpus that a successful build saves. Conversely, a sample that
  is a key of the dictionary, is read at a rate other than zero and violates the
  first bound, or is resampled and violates the second, is skipped: its pass through
  the loop body is a \<^verbatim>\<open>continue\<close>, the worker goes on with the next path and an
  unchanged accumulator, and no record with its path is in the pooled list.
\<close>

theorem C3_duration_filter:
  "(process_path env d assumed_sr min_len max_len phone_input allow path = Done dp
      \<longrightarrow> snd (snd (snd dp)) = path
          \<and> durations_within env min_len max_len path (fst (snd (snd dp))))
   \<and> (dp \<in> set (pooled_datapoints env d key_list finish_order loading_processes
                    min_len max_len phone_input allow)
      \<longrightarrow> snd (snd (snd dp)) \<in> set key_list
          \<and> durations_within env min_len max_len (snd (snd (snd dp))) (fst (snd (snd dp))))
   \<and> ((cache_file w = None \<or> rebuild_cache)
        \<and> init env src w rnd finish_order loading_processes min_len max_len rebuild_cache
             phone_input allow = (w', Inr ds)
      \<longrightarrow> (\<exists>paths. cache_file w' = Some (datapoints ds, (), speaker_embeddings ds, paths)
             \<and> length paths = length (datapoints ds)
             \<and> (\<forall>path \<in> set paths.
                   \<exists>norm_wave. durations_within env min_len max_len path norm_wave)))
   \<and> (map_of d path = Some transcript \<and> sf_read env path = Inr (wave, sr) \<and> sr \<noteq> 0
        \<and> \<not> within_bounds min_len (truediv env (length wave) sr) max_len
      \<longrightarrow> process_path env d assumed_sr min_len max_len phone_input allow path = Skip
          \<and> builder_loop env d assumed_sr min_len max_len phone_input allow (path # rest) chunk
            = builder_loop env d assumed_sr min_len max_len phone_input allow rest chunk)
   \<and> (map_of d path = Some transcript \<and> sf_read env path = Inr (wave, sr) \<and> sr \<noteq> 0
        \<and> resample env sr wave = Inr norm_wave
        \<and> \<not> within_bounds min_len (truediv env (length norm_wave) 16000) max_len
      \<longrightarrow> process_path env d assumed_sr min_len max_len phone_input allow path = Skip
          \<and> builder_loop env d assumed_sr min_len max_len phone_input allow (path # rest) chunk
            = builder_loop env d assumed_sr min_len max_len phone_input allow rest chunk)
   \<and> (sf_read env path = Inr (wave, sr)
        \<and> (\<not> within_bounds min_len (truediv env (length wave) sr) max_len
           \<or> resample env sr wave = Inr norm_wave
             \<and> \<not> within_bounds min_len (truediv env (length norm_wave) 16000) max_len)
      \<longrightarrow> path \<notin> (\<lambda>x. snd (snd (snd x)))
                     ` set (pooled_datapoints env d key_list finish_order loading_processes
                              min_len max_len phone_input allow))"
proof (intro conjI impI)
  assume h: "map_of d path = Some transcript \<and> sf_read env path = Inr (wave, sr) \<and> sr \<noteq> 0
        \<and> \<not> within_bounds min_len (truediv env (length wave) sr) max_len"
  then show s1: "process_path env d assumed_sr min_len max_len phone_input allow path = Skip"
    using first_bound_violated_skip by blast
  then show "builder_loop env d assumed_sr min_len max_len phone_input allow (path # rest) chunk
            = builder_loop env d assumed_sr min_len max_len phone_input allow rest chunk"
    by simp
next
  assume h: "map_of d path = Some transcript \<and> sf_read env path = Inr (wave, sr) \<and> sr \<noteq> 0
        \<and> resample env sr wave = Inr norm_wave
        \<and> \<not> within_bounds min_len (truediv env (length norm_wave) 16000) max_len"
  then show s2: "process_path env d assumed_sr min_len max_len phone_input allow path = Skip"
    using second_bound_violated_skip by blast
  then show "builder_loop env d assumed_sr min_len max_len phone_input allow (path # rest) chunk
            = builder_loop env d assumed_sr min_len max_len phone_input allow rest chunk"
    by simp
next
  assume "sf_read env path = Inr (wave, sr)
        \<and> (\<not> within_bounds min_len (truediv env (length wave) sr) max_len
           \<or> resample env sr wave = Inr norm_wave
             \<and> \<not> within_bounds min_len (truediv env (length norm_wave) 16000) max_len)"
  then show "path \<notin> (\<lambda>x. snd (snd (snd x)))
                     ` set (pooled_datapoints env d key_list finish_order loading_processes
                              min_len max_len phone_input allow)"
    using bound_violated_absent by blast
next
  assume "process_path env d assumed_sr min_len max_len phone_input allow path = Done dp"
  from process_path_durations [OF this]
  show "snd (snd (snd dp)) = path"
    "durations_within env min_len max_len path (fst (snd (snd dp)))"
    by blast+
next
  assume "dp \<in> set (pooled_datapoints env d key_list finish_order loading_processes
                    min_len max_len phone_input allow)"
  from pooled_datapoints_durations [OF this]
  show "snd (snd (snd dp)) \<in> set key_list"
    "durations_within env min_len max_len (snd (snd (snd dp))) (fst (snd (snd dp)))"
    by blast+
next
  assume h: "(cache_file w = None \<or> rebuild_cache)
        \<and> init env src w rnd finish_order loading_processes min_len max_len rebuild_cache
             phone_input allow = (w', Inr ds)"
  then have "build env src w rnd finish_order loading_processes min_len max_len
               phone_input allow = (w', Inr ds)"
    by (auto simp: init_def split: option.splits)
  from build_success [OF this] obtain shuffled where
    dps: "datapoints ds
             = zip (map (\<lambda>x. short_tensor_text env (fst x))
                      (pooled_datapoints env (the_dict src) shuffled finish_order
                         loading_processes min_len max_len phone_input allow))
                   (map (\<lambda>x. short_tensor_speech env (fst (snd x)))
                      (pooled_datapoints env (the_dict src) shuffled finish_order
                         loading_processes min_len max_len phone_input allow))"
    and cf: "cache_file w'
             = Some (datapoints ds, (), speaker_embeddings ds,
                     map (\<lambda>x. snd (snd (snd x)))
                       (pooled_datapoints env (the_dict src) shuffled finish_order
                          loading_processes min_len max_len phone_input allow))"
    by blast
  define pool where "pool = pooled_datapoints env (the_dict src) shuffled finish_order
                      loading_processes min_len max_len phone_input allow"
  have "\<exists>norm_wave. durations_within env min_len max_len path norm_wave"
    if "path \<in> set (map (\<lambda>x. snd (snd (snd x))) pool)" for path
  proof -
    from that obtain dp where "dp \<in> set pool" "path = snd (snd (snd dp))" by auto
    with pooled_datapoints_durations [of dp env "the_dict src" shuffled finish_order
        loading_processes min_len max_len phone_input allow]
    show ?thesis unfolding pool_def by blast
  qed
  moreover have "length (map (\<lambda>x. snd (snd (snd x))) pool) = length (datapoints ds)"
    using dps by (simp add: pool_def)
  ultimately show "\<exists>paths. cache_file w' = Some (datapoints ds, (), speaker_embeddings ds, paths)
             \<and> length paths = length (datapoints ds)
             \<and> (\<forall>path \<in> set paths.
                   \<exists>norm_wave. durations_within env min_len max_len path norm_wave)"
    using cf unfolding pool_def by blast
qed

theorem C3_duration_filter_witness:
  "process_path demo_env demo_dict 1 0 (5/2) False True ''b.wav'' = Done (1, 2, [4, 5], ''b.wav'')
   \<and> (1, 2, [4, 5], ''b.wav'')
       \<in> set (pooled_datapoints demo_env demo_dict [''a.wav'', ''b.wav'', ''c.wav''] [1, 0] 2
                0 (5/2) False True)
   \<and> durations_within demo_env 0 (5/2) ''b.wav'' [4, 5]
   \<and> cache_file empty_world = None
   \<and> init demo_env (IsDict demo_dict) empty_world (\<lambda>k. k) [1, 0] 2 0 15 False False True
       = (cached_world, Inr cached_dataset)
   \<and> (\<exists>norm_wave. durations_within demo_env 0 15 ''a.wav'' norm_wave)
   \<and> map_of demo_dict ''a.wav'' = Some [104, 105]
   \<and> sf_read demo_env ''a.wav'' = Inr ([1, 2, 3], 1)
   \<and> \<not> within_bounds 0 (truediv demo_env (length [1, 2, 3::nat]) 1) (5/2)
   \<and> process_path demo_env demo_dict 1 0 (5/2) False True ''a.wav'' = Skip
   \<and> ''a.wav'' \<notin> (\<lambda>x. snd (snd (snd x)))
                    ` set (pooled_datapoints demo_env demo_dict [''a.wav'', ''b.wav'', ''c.wav'']
                             [1, 0] 2 0 (5/2) False True)
   \<and> within_bounds 1 (truediv demo_env (length [1, 2, 3::nat]) 1) 15
   \<and> resample demo_env 1 [1, 2, 3] = Inr [1, 2, 3]
   \<and> \<not> within_bounds 1 (truediv demo_env (length [1, 2, 3::nat]) 16000) 15
   \<and> process_path demo_env demo_dict 1 1 15 False True ''a.wav'' = Skip
   \<and> builder_loop demo_env demo_dict 1 1 15 False True [''a.wav''] [] = Inr []"
proof -
  have p: "process_path demo_env demo_dict 1 0 (5/2) False True ''b.wav''
           = Done (1, 2, [4, 5], ''b.wav'')"
    by (simp add: demo_defs)
  have mem: "(1, 2, [4, 5], ''b.wav'')
       \<in> set (pooled_datapoints demo_env demo_dict [''a.wav'', ''b.wav'', ''c.wav''] [1, 0] 2
                0 (5/2) False True)"
    unfolding demo_pool by simp
  have n: "cache_file empty_world = None"
    by (simp add: empty_world_def)
  have m: "map_of demo_dict ''a.wav'' = Some [104, 105]"
    by (simp add: demo_dict_def)
  have r: "sf_read demo_env ''a.wav'' = Inr ([1, 2, 3], 1)"
    by (simp add: demo_env_def)
  have rs: "resample demo_env 1 [1, 2, 3] = Inr [1, 2, 3]"
    by (simp add: demo_env_def)
  have b1: "\<not> within_bounds 0 (truediv demo_env (length [1, 2, 3::nat]) 1) (5/2)"
    by (simp add: within_bounds_def demo_env_def)
  have b2: "within_bounds 1 (truediv demo_env (length [1, 2, 3::nat]) 1) 15"
    by (simp add: within_bounds_def demo_env_def)
  have b3: "\<not> within_bounds 1 (truediv demo_env (length [1, 2, 3::nat]) 16000) 15"
    by (simp add: within_bounds_def demo_env_def)
  have one: "(1::int) \<noteq> 0" by simp
  note kept = C3_duration_filter [where env = demo_env and d = demo_dict and assumed_sr = 1
      and min_len = 0 and max_len = "5/2" and phone_input = False and allow = True
      and path = "''b.wav''" and dp = "(1, 2, [4, 5], ''b.wav'')"
      and key_list = "[''a.wav'', ''b.wav'', ''c.wav'']" and finish_order = "[1, 0]"
      and loading_processes = 2 and w = empty_world and rebuild_cache = False
      and src = "IsDict demo_dict" and rnd = "\<lambda>k. k" and w' = cached_world
      and ds = cached_dataset and transcript = "[63]" and wave = "[4, 5]" and sr = 1
      and norm_wave = "[4, 5]" and rest = "[]" and chunk = "[]"]
  note first = C3_duration_filter [where env = demo_env and d = demo_dict and assumed_sr = 1
      and min_len = 0 and max_len = "5/2" and phone_input = False and allow = True
      and path = "''a.wav''" and dp = "(1, 2, [4, 5], ''b.wav'')"
      and key_list = "[''a.wav'', ''b.wav'', ''c.wav'']" and finish_order = "[1, 0]"
      and loading_processes = 2 and w = empty_world and rebuild_cache = False
      and src = "IsDict demo_dict" and rnd = "\<lambda>k. k" and w' = cached_world
      and ds = cached_dataset and transcript = "[104, 105]" and wave = "[1, 2, 3]" and sr = 1
      and norm_wave = "[1, 2, 3]" and rest = "[]" and chunk = "[]"]
  note second = C3_duration_filter [where env = demo_env and d = demo_dict and assumed_sr = 1
      and min_len = 1 and max_len = 15 and phone_input = False and allow = True
      and path = "''a.wav''" and dp = "(1, 2, [4, 5], ''b.wav'')"
      and key_list = "[''a.wav'', ''b.wav'', ''c.wav'']" and finish_order = "[1, 0]"
      and loading_processes = 2 and w = empty_world and rebuild_cache = False
      and src = "IsDict demo_dict" and rnd = "\<lambda>k. k" and w' = cached_world
      and ds = cached_dataset and transcript = "[104, 105]" and wave = "[1, 2, 3]" and sr = 1
      and norm_wave = "[1, 2, 3]" and rest = "[]" and chunk = "[]"]
  note built = C3_duration_filter [where env = demo_env and d = demo_dict and assumed_sr = 1
      and min_len = 0 and max_len = 15 and phone_input = False and allow = True
      and path = "''a.wav''" and dp = "(1, 2, [4, 5], ''b.wav'')"
      and key_list = "[''a.wav'', ''b.wav'', ''c.wav'']" and finish_order = "[1, 0]"
      and loading_processes = 2 and w = empty_world and rebuild_cache = False
      and src = "IsDict demo_dict" and rnd = "\<lambda>k. k" and w' = cached_world
      and ds = cached_dataset and transcript = "[104, 105]" and wave = "[1, 2, 3]" and sr = 1
      and norm_wave = "[1, 2, 3]" and rest = "[]" and chunk = "[]"]
  have k1: "durations_within demo_env 0 (5/2) ''b.wav'' [4, 5]"
    using kept p by simp
  have "\<exists>paths. cache_file cached_world
                  = Some (datapoints cached_dataset, (), speaker_embeddings cached_dataset, paths)
             \<and> length paths = length (datapoints cached_dataset)
             \<and> (\<forall>path \<in> set paths.
                   \<exists>norm_wave. durations_within demo_env 0 15 path norm_wave)"
    using built n demo_init by blast
  then have k2: "\<exists>norm_wave. durations_within demo_env 0 15 ''a.wav'' norm_wave"
    by (auto simp: cached_world_def)
  have s1: "process_path demo_env demo_dict 1 0 (5/2) False True ''a.wav'' = Skip"
    using first m r one b1 by blast
  have s2: "''a.wav'' \<notin> (\<lambda>x. snd (snd (snd x)))
                    ` set (pooled_datapoints demo_env demo_dict [''a.wav'', ''b.wav'', ''c.wav'']
                             [1, 0] 2 0 (5/2) False True)"
    using first r b1 by blast
  have s3: "process_path demo_env demo_dict 1 1 15 False True ''a.wav'' = Skip"
    using second m r one rs b3 by blast
  have s4: "builder_loop demo_env demo_dict 1 1 15 False True [''a.wav''] [] = Inr []"
    using second m r one rs b3 by simp
  from p mem k1 n demo_init k2 m r b1 s1 s2 b2 rs b3 s3 s4 show ?thesis
    by blast
qed

text \<open>
  Claim C5. When the constructor takes the build branch and the pooled datapoint list
  is empty, it raises \<^verbatim>\<open>RuntimeError\<close>; the cache blob is what it was before (absent, or
  the blob of an earlier run), and no save happens.
\<close>

theorem C5_empty_corpus_is_fatal:
  assumes "cache_file w = None \<or> rebuild_cache"
    and "fisher_yates_shuffle rnd (map fst (the_dict src)) = Inr shuffled"
    and "pooled_datapoints env (the_dict src) shuffled finish_order loading_processes
           min_len max_len phone_input allow = []"
  shows "snd (init env src w rnd finish_order loading_processes min_len max_len rebuild_cache
                phone_input allow) = Inl RuntimeError
       \<and> cache_file (fst (init env src w rnd finish_order loading_processes min_len max_len
                             rebuild_cache phone_input allow)) = cache_file w
       \<and> CacheSaved \<notin> set (drop (length (events w))
                               (events (fst (init env src w rnd finish_order loading_processes
                                               min_len max_len rebuild_cache phone_input allow))))"
proof -
  have "init env src w rnd finish_order loading_processes min_len max_len rebuild_cache
          phone_input allow
        = build env src w rnd finish_order loading_processes min_len max_len phone_input allow"
    using assms(1) by (auto simp: init_def split: option.splits)
  then show ?thesis
    using build_empty [OF assms(2,3), of w] by auto
qed

theorem C5_empty_corpus_is_fatal_witness:
  "cache_file empty_world = None
   \<and> fisher_yates_shuffle (\<lambda>k. k) (map fst (the_dict (IsDict demo_dict)))
       = Inr [''c.wav'', ''b.wav'', ''a.wav'']
   \<and> pooled_datapoints demo_env (the_dict (IsDict demo_dict)) [''c.wav'', ''b.wav'', ''a.wav'']
        [1, 0] 2 4 15 False True = []
   \<and> snd (init demo_env (IsDict demo_dict) empty_world (\<lambda>k. k) [1, 0] 2 4 15 False False True)
       = Inl RuntimeError
   \<and> cache_file (fst (init demo_env (IsDict demo_dict) empty_world (\<lambda>k. k) [1, 0] 2 4 15
                         False False True)) = None"
proof -
  have c: "cache_file empty_world = None \<or> False"
    by (simp add: empty_world_def)
  have k: "map fst (the_dict (IsDict demo_dict)) = [''a.wav'', ''b.wav'', ''c.wav'']"
    by (simp add: demo_dict_def)
  have s: "fisher_yates_shuffle (\<lambda>k. k) (map fst (the_dict (IsDict demo_dict)))
           = Inr [''c.wav'', ''b.wav'', ''a.wav'']"
    unfolding k by (rule demo_shuffle)
  have e: "pooled_datapoints demo_env (the_dict (IsDict demo_dict))
             [''c.wav'', ''b.wav'', ''a.wav''] [1, 0] 2 4 15 False True = []"
    using demo_empty_pool by simp
  from C5_empty_corpus_is_fatal [OF c s e] c s e show ?thesis
    by simp
qed

text \<open>
  Claim C6. When the blob exists and \<^verbatim>\<open>rebuild_cache\<close> is false, the constructor only
  loads: the world changes by the load alone (no file note, no process started, no
  save), and the object holds slots 0 and 2 of the blob, whatever the collaborators,
  the transcripts, the random source and the worker count are. The build branch,
  whose first effect is writing the file note, runs if and only if the blob is missing
  or \<^verbatim>\<open>rebuild_cache\<close> is true.
\<close>

theorem C6_cache_short_circuit:
  "(cache_file w = Some b \<and> \<not> rebuild_cache
      \<longrightarrow> init env src w rnd finish_order loading_processes min_len max_len rebuild_cache
            phone_input allow
          = (w\<lparr>events := events w @ [CacheLoaded]\<rparr>,
             Inr \<lparr>datapoints = fst b, speaker_embeddings = fst (snd (snd b)),
                  ap_created = False\<rparr>))
   \<and> (FilesUsedWritten
         \<in> set (drop (length (events w))
                  (events (fst (init env src w rnd finish_order loading_processes min_len max_len
                                  rebuild_cache phone_input allow))))
       \<longleftrightarrow> cache_file w = None \<or> rebuild_cache)"
proof -
  obtain rest where
    b: "events (fst (build env src w rnd finish_order loading_processes min_len max_len
                       phone_input allow)) = events w @ FilesUsedWritten # rest"
    using build_events by blast
  show ?thesis
  proof (cases "cache_file w = None \<or> rebuild_cache")
    case True
    then have "init env src w rnd finish_order loading_processes min_len max_len rebuild_cache
                 phone_input allow
               = build env src w rnd finish_order loading_processes min_len max_len
                   phone_input allow"
      by (auto simp: init_def split: option.splits)
    with True b show ?thesis by auto
  next
    case False
    then obtain c where c: "cache_file w = Some c" "\<not> rebuild_cache" by auto
    then have "init env src w rnd finish_order loading_processes min_len max_len rebuild_cache
                 phone_input allow = load c w"
      by (simp add: init_def)
    with c show ?thesis by (auto simp: load_def)
  qed
qed

theorem C6_cache_short_circuit_witness:
  "cache_file cached_world = Some ([(1, 2), (2, 3)], (), [9, 6], [''b.wav'', ''a.wav''])
   \<and> init broken_frontend_env (IsDict []) cached_world (\<lambda>k. 0) [] 7 0 1 False True False
       = (cached_world\<lparr>events := events cached_world @ [CacheLoaded]\<rparr>, Inr cached_dataset)
   \<and> FilesUsedWritten
       \<notin> set (drop (length (events cached_world))
                (events (fst (init broken_frontend_env (IsDict []) cached_world (\<lambda>k. 0) [] 7 0 1
                                False True False))))
   \<and> FilesUsedWritten
       \<in> set (drop (length (events empty_world))
                (events (fst (init demo_env (IsDict demo_dict) empty_world (\<lambda>k. k) [1, 0] 2 0 15
                                False False True))))"
proof -
  have c: "cache_file cached_world = Some ([(1, 2), (2, 3)], (), [9, 6], [''b.wav'', ''a.wav''])"
    by (simp add: cached_world_def)
  have n: "cache_file empty_world = None"
    by (simp add: empty_world_def)
  show ?thesis
    using c n
      C6_cache_short_circuit [of cached_world
        "([(1, 2), (2, 3)], (), [9, 6], [''b.wav'', ''a.wav''])" False broken_frontend_env
        "IsDict []" "\<lambda>k. 0" "[]" 7 0 1 True False]
      C6_cache_short_circuit [of empty_world
        "([(1, 2), (2, 3)], (), [9, 6], [''b.wav'', ''a.wav''])" False demo_env
        "IsDict demo_dict" "\<lambda>k. k" "[1, 0]" 2 0 15 False True]
    by (simp add: cached_dataset_def)
qed

text \<open>
  Claim C7. After a construction that succeeds, the blob on disk holds the datapoints
  (token tensors paired with speech-code tensors) and the speaker embeddings of the
  object, and, when the cache was built, the source paths of the pooled records in the
  same order; constructing again from that world without \<^verbatim>\<open>rebuild_cache\<close>, with any
  other arguments, gives an object with exactly the same datapoints and embeddings.
  Here \<^verbatim>\<open>torch.save\<close> and \<^verbatim>\<open>torch.load\<close> store and return the tuple unchanged.
\<close>

theorem C7_cache_round_trip:
  assumes "init env src w rnd finish_order loading_processes min_len max_len rebuild_cache
             phone_input allow = (w', Inr ds)"
  shows "(\<exists>paths. cache_file w' = Some (datapoints ds, (), speaker_embeddings ds, paths)
            \<and> (cache_file w = None \<or> rebuild_cache
                \<longrightarrow> (\<exists>shuffled.
                       fisher_yates_shuffle rnd (map fst (the_dict src)) = Inr shuffled
                     \<and> paths = map (\<lambda>x. snd (snd (snd x)))
                                 (pooled_datapoints env (the_dict src) shuffled finish_order
                                    loading_processes min_len max_len phone_input allow))))
       \<and> init env2 src2 w' rnd2 finish_order2 loading_processes2 min_len2 max_len2 False
           phone_input2 allow2
         = (w'\<lparr>events := events w' @ [CacheLoaded]\<rparr>, Inr ds)"
proof (cases "cache_file w = None \<or> rebuild_cache")
  case True
  then have "build env src w rnd finish_order loading_processes min_len max_len
               phone_input allow = (w', Inr ds)"
    using assms by (auto simp: init_def split: option.splits)
  from build_success [OF this] True show ?thesis
    by (auto simp: init_def load_def)
next
  case False
  then obtain c where c: "cache_file w = Some c" "\<not> rebuild_cache" by auto
  with assms have "load c w = (w', Inr ds)"
    by (simp add: init_def)
  then have w': "w' = w\<lparr>events := events w @ [CacheLoaded]\<rparr>"
    and ds: "ds = \<lparr>datapoints = fst c, speaker_embeddings = fst (snd (snd c)),
                   ap_created = False\<rparr>"
    by (auto simp: load_def)
  obtain dps u embs paths where cc: "c = (dps, u, embs, paths)"
    by (cases c) auto
  with c w' ds False show ?thesis
    by (auto simp: init_def load_def)
qed

theorem C7_cache_round_trip_witness:
  "init demo_env (IsDict demo_dict) empty_world (\<lambda>k. k) [1, 0] 2 0 15 False False True
     = (cached_world, Inr cached_dataset)
   \<and> cache_file cached_world
       = Some (datapoints cached_dataset, (), speaker_embeddings cached_dataset,
               [''b.wav'', ''a.wav''])
   \<and> init broken_frontend_env (IsDict []) cached_world (\<lambda>k. 0) [] 7 0 1 False True False
       = (cached_world\<lparr>events := events cached_world @ [CacheLoaded]\<rparr>, Inr cached_dataset)"
  using demo_init
    C7_cache_round_trip [OF demo_init, of broken_frontend_env "IsDict []" "\<lambda>k. 0" "[]" 7 0 1
      True False]
  by (simp add: cached_world_def cached_dataset_def)

subsection \<open>Index alignment\<close>

lemma py_index_nat:
  "i < length xs \<Longrightarrow> py_index xs (int i) = Inr (xs ! i)"
  by (simp add: py_index_def)

lemma getitem_valid:
  assumes "i < length (datapoints ds)" and "length (speaker_embeddings ds) = length (datapoints ds)"
  shows "snd (getitem venv ds (int i))
       = Inr (text_vectors_to_id_sequence venv (fst (datapoints ds ! i)),
              [int (length (text_vectors_to_id_sequence venv (fst (datapoints ds ! i))))],
              indexes_to_codec_frames venv (snd (datapoints ds ! i)),
              [int (tensor_len venv (snd (datapoints ds ! i)))],
              speaker_embeddings ds ! i)"
  using assms by (simp add: getitem_def Let_def py_index_nat)

text \<open>
  Claim C8. After a build that succeeds, the datapoints, the speaker embeddings and
  the pooled records have the same length, and at every index \<open>i\<close> below it: the
  datapoint is the pair of tensors made from the text and the speech codes of the
  \<open>i\<close>-th pooled record, the embedding is the result of \<^verbatim>\<open>encode_batch\<close> on the
  normalized wave of the same record, that record is what the loop body produced for
  the record's own path, and \<^verbatim>\<open>__getitem__(i)\<close> returns the \<open>i\<close>-th embedding together
  with the values decoded from the \<open>i\<close>-th datapoint. This holds for every order in
  which the workers finish.
\<close>

theorem C8_index_alignment:
  assumes "cache_file w = None \<or> rebuild_cache"
    and "init env src w rnd finish_order loading_processes min_len max_len rebuild_cache
           phone_input allow = (w', Inr ds)"
  shows "\<exists>shuffled pool.
           fisher_yates_shuffle rnd (map fst (the_dict src)) = Inr shuffled
         \<and> pool = pooled_datapoints env (the_dict src) shuffled finish_order loading_processes
                    min_len max_len phone_input allow
         \<and> length (datapoints ds) = length pool
         \<and> length (speaker_embeddings ds) = length pool
         \<and> (\<forall>i < length pool.
               datapoints ds ! i
                 = (short_tensor_text env (fst (pool ! i)),
                    short_tensor_speech env (fst (snd (pool ! i))))
             \<and> encode_batch env (float_tensor env (fst (snd (snd (pool ! i)))))
                 = Inr (speaker_embeddings ds ! i)
             \<and> (\<exists>sr. process_path env (the_dict src) sr min_len max_len phone_input allow
                        (snd (snd (snd (pool ! i)))) = Done (pool ! i))
             \<and> snd (getitem venv ds (int i))
                 = Inr (text_vectors_to_id_sequence venv (fst (datapoints ds ! i)),
                        [int (length (text_vectors_to_id_sequence venv
                                        (fst (datapoints ds ! i))))],
                        indexes_to_codec_frames venv (snd (datapoints ds ! i)),
                        [int (tensor_len venv (snd (datapoints ds ! i)))],
                        speaker_embeddings ds ! i))"
proof -
  have "build env src w rnd finish_order loading_processes min_len max_len
          phone_input allow = (w', Inr ds)"
    using assms by (auto simp: init_def split: option.splits)
  from build_success [OF this] obtain shuffled embs where
    sh: "fisher_yates_shuffle rnd (map fst (the_dict src)) = Inr shuffled"
    and em: "embed_loop env
               (map (\<lambda>x. float_tensor env (fst (snd (snd x))))
                  (pooled_datapoints env (the_dict src) shuffled finish_order loading_processes
                     min_len max_len phone_input allow)) [] = Inr embs"
    and dps: "datapoints ds
             = zip (map (\<lambda>x. short_tensor_text env (fst x))
                      (pooled_datapoints env (the_dict src) shuffled finish_order
                         loading_processes min_len max_len phone_input allow))
                   (map (\<lambda>x. short_tensor_speech env (fst (snd x)))
                      (pooled_datapoints env (the_dict src) shuffled finish_order
                         loading_processes min_len max_len phone_input allow))"
    and se: "speaker_embeddings ds = embs"
    by blast
  define pool where "pool = pooled_datapoints env (the_dict src) shuffled finish_order
                      loading_processes min_len max_len phone_input allow"
  note E = embed_loop_nth [OF em, folded pool_def]
  have ld: "length (datapoints ds) = length pool"
    using dps by (simp add: pool_def)
  have le: "length (speaker_embeddings ds) = length pool"
    using E se by simp
  have each: "datapoints ds ! i
                 = (short_tensor_text env (fst (pool ! i)),
                    short_tensor_speech env (fst (snd (pool ! i))))
             \<and> encode_batch env (float_tensor env (fst (snd (snd (pool ! i)))))
                 = Inr (speaker_embeddings ds ! i)
             \<and> (\<exists>sr. process_path env (the_dict src) sr min_len max_len phone_input allow
                        (snd (snd (snd (pool ! i)))) = Done (pool ! i))
             \<and> snd (getitem venv ds (int i))
                 = Inr (text_vectors_to_id_sequence venv (fst (datapoints ds ! i)),
                        [int (length (text_vectors_to_id_sequence venv
                                        (fst (datapoints ds ! i))))],
                        indexes_to_codec_frames venv (snd (datapoints ds ! i)),
                        [int (tensor_len venv (snd (datapoints ds ! i)))],
                        speaker_embeddings ds ! i)"
    if i: "i < length pool" for i
  proof -
    have 1: "datapoints ds ! i
                 = (short_tensor_text env (fst (pool ! i)),
                    short_tensor_speech env (fst (snd (pool ! i))))"
      using i dps by (simp add: pool_def)
    have 2: "encode_batch env (float_tensor env (fst (snd (snd (pool ! i)))))
                 = Inr (speaker_embeddings ds ! i)"
      using E i se by simp
    have "pool ! i \<in> set pool" using i by simp
    then obtain sr path where
      p: "process_path env (the_dict src) sr min_len max_len phone_input allow path
           = Done (pool ! i)"
      unfolding pool_def using pooled_datapoints_members by blast
    then have "snd (snd (snd (pool ! i))) = path"
      using process_path_durations by blast
    with p have 3: "\<exists>sr. process_path env (the_dict src) sr min_len max_len phone_input allow
                        (snd (snd (snd (pool ! i)))) = Done (pool ! i)"
      by blast
    have 4: "snd (getitem venv ds (int i))
                 = Inr (text_vectors_to_id_sequence venv (fst (datapoints ds ! i)),
                        [int (length (text_vectors_to_id_sequence venv
                                        (fst (datapoints ds ! i))))],
                        indexes_to_codec_frames venv (snd (datapoints ds ! i)),
                        [int (tensor_len venv (snd (datapoints ds ! i)))],
                        speaker_embeddings ds ! i)"
      using i ld le by (intro getitem_valid) simp_all
    from 1 2 3 4 show ?thesis by blast
  qed
  from sh ld le each show ?thesis
    unfolding pool_def by blast
qed

theorem C8_index_alignment_witness:
  "cache_file empty_world = None
   \<and> init demo_env (IsDict demo_dict) empty_world (\<lambda>k. k) [1, 0] 2 0 15 False False True
       = (cached_world, Inr cached_dataset)
   \<and> pooled_datapoints demo_env demo_dict [''c.wav'', ''b.wav'', ''a.wav''] [1, 0] 2 0 15
        False True
       = [(1, 2, [4, 5], ''b.wav''), (2, 3, [1, 2, 3], ''a.wav'')]
   \<and> datapoints cached_dataset ! 1 = (2, 3)
   \<and> encode_batch demo_env [1, 2, 3] = Inr (speaker_embeddings cached_dataset ! 1)
   \<and> snd (getitem demo_view cached_dataset 1) = Inr ([2], [1], 3, [3], 6)"
proof -
  have n: "cache_file empty_world = None \<or> False"
    by (simp add: empty_world_def)
  from C8_index_alignment [OF n demo_init, of demo_view]
  obtain shuffled pool where
    sh: "fisher_yates_shuffle (\<lambda>k. k) (map fst (the_dict (IsDict demo_dict))) = Inr shuffled"
    and pool: "pool = pooled_datapoints demo_env (the_dict (IsDict demo_dict)) shuffled [1, 0] 2
                 0 15 False True"
    and each: "\<forall>i < length pool.
               datapoints cached_dataset ! i
                 = (short_tensor_text demo_env (fst (pool ! i)),
                    short_tensor_speech demo_env (fst (snd (pool ! i))))
             \<and> encode_batch demo_env (float_tensor demo_env (fst (snd (snd (pool ! i)))))
                 = Inr (speaker_embeddings cached_dataset ! i)
             \<and> (\<exists>sr. process_path demo_env (the_dict (IsDict demo_dict)) sr 0 15 False True
                        (snd (snd (snd (pool ! i)))) = Done (pool ! i))
             \<and> snd (getitem demo_view cached_dataset (int i))
                 = Inr (text_vectors_to_id_sequence demo_view (fst (datapoints cached_dataset ! i)),
                        [int (length (text_vectors_to_id_sequence demo_view
                                        (fst (datapoints cached_dataset ! i))))],
                        indexes_to_codec_frames demo_view (snd (datapoints cached_dataset ! i)),
                        [int (tensor_len demo_view (snd (datapoints cached_dataset ! i)))],
                        speaker_embeddings cached_dataset ! i)"
    by blast
  have k: "map fst (the_dict (IsDict demo_dict)) = [''a.wav'', ''b.wav'', ''c.wav'']"
    by (simp add: demo_dict_def)
  from sh have "shuffled = [''c.wav'', ''b.wav'', ''a.wav'']"
    unfolding k demo_shuffle by simp
  with pool have p: "pool = [(1, 2, [4, 5], ''b.wav''), (2, 3, [1, 2, 3], ''a.wav'')]"
    using demo_full_pool by simp
  from each [rule_format, of 1] p n demo_init demo_full_pool show ?thesis
    by (simp add: demo_env_def demo_view_def cached_dataset_def)
qed

end
